theory Spec2Isabelle
  imports Complex_Main "HOL-Library.Sublist"
begin

section \<open>Values and data model\<close>

text \<open>
  The HLS parser of \<^verbatim>\<open>packages/hls-parser/src/lib\<close>: the dispatcher and the
  segment assembler of \<^verbatim>\<open>parse.ts\<close>, the attribute-tag processors of
  \<^verbatim>\<open>tags/tagWithAttributesProcessors.ts\<close> and the warning texts of
  \<^verbatim>\<open>utils/warn.ts\<close>.

  JavaScript numbers are modelled over the reals: rounding and infinities are outside
  the model. \<open>NaN\<close> is kept where the source stores the result of \<^verbatim>\<open>Number(...)\<close>
  unchecked; the fields the segment assembler computes with (durations, times, sequence
  numbers, bitrate) are plain reals. A string is a list of characters, and a character
  stands for one code unit of a JavaScript string. An exception is a value: a function
  that can throw returns \<open>error + 'a\<close>. The callbacks the caller supplies
  (\<^verbatim>\<open>transformTagValue\<close>, \<^verbatim>\<open>transformTagAttributes\<close>, the custom tag processors,
  \<^verbatim>\<open>warnCallback\<close>) are taken to return.
\<close>

datatype number = NaN | Num real

text \<open>
  Object literals that the processors store in the playlist are kept as JavaScript
  values, property by property and in the order of the literal.
\<close>

datatype jsval =
    Undefined
  | Null
  | Bool bool
  | Number number
  | Str string
  | Arr "jsval list"
  | Obj "(string \<times> jsval) list"

datatype error = TypeError

text \<open>Truthiness, as \<^verbatim>\<open>if (v)\<close>, \<^verbatim>\<open>v ? a : b\<close>, \<^verbatim>\<open>!v\<close> and \<^verbatim>\<open>a || b\<close> read a value.\<close>

fun truthy :: "jsval \<Rightarrow> bool" where
  "truthy Undefined = False"
| "truthy Null = False"
| "truthy (Bool b) = b"
| "truthy (Number NaN) = False"
| "truthy (Number (Num x)) = (x \<noteq> 0)"
| "truthy (Str s) = (s \<noteq> [])"
| "truthy (Arr xs) = True"
| "truthy (Obj ps) = True"

text \<open>Property read \<^verbatim>\<open>o[k]\<close> of an object, and property write \<^verbatim>\<open>o[k] = v\<close>
  (an existing key keeps its place, a new one goes last).\<close>

fun obj_get :: "(string \<times> 'v) list \<Rightarrow> string \<Rightarrow> 'v option" where
  "obj_get [] k = None"
| "obj_get ((k', v) # ps) k = (if k' = k then Some v else obj_get ps k)"

fun obj_set :: "string \<Rightarrow> 'v \<Rightarrow> (string \<times> 'v) list \<Rightarrow> (string \<times> 'v) list" where
  "obj_set k v [] = [(k, v)]"
| "obj_set k v ((k', v') # ps) = (if k' = k then (k, v) # ps else (k', v') # obj_set k v ps)"

text \<open>The property names every object literal inherits from \<^verbatim>\<open>Object.prototype\<close>:
  \<^verbatim>\<open>k in o\<close> holds for them, and \<^verbatim>\<open>o[k]\<close> is then a built-in function or, for
  \<^verbatim>\<open>__proto__\<close>, the prototype itself.\<close>

definition objectPrototypeKeys :: "string list" where
  "objectPrototypeKeys =
     [''constructor'', ''__defineGetter__'', ''__defineSetter__'', ''hasOwnProperty'',
      ''__lookupGetter__'', ''__lookupSetter__'', ''isPrototypeOf'', ''propertyIsEnumerable'',
      ''toString'', ''valueOf'', ''__proto__'', ''toLocaleString'']"

definition js_get :: "jsval \<Rightarrow> string \<Rightarrow> jsval" where
  "js_get v k = (case v of Obj ps \<Rightarrow> (case obj_get ps k of Some x \<Rightarrow> x | None \<Rightarrow> Undefined)
                 | _ \<Rightarrow> Undefined)"

text \<open>Arithmetic on numbers: \<open>NaN\<close> is absorbing; \<^verbatim>\<open>undefined\<close> converts to \<open>NaN\<close>.\<close>

fun num_of :: "jsval \<Rightarrow> number" where
  "num_of (Number n) = n"
| "num_of _ = NaN"

fun nadd :: "number \<Rightarrow> number \<Rightarrow> number" where
  "nadd (Num a) (Num b) = Num (a + b)"
| "nadd _ _ = NaN"

fun nsub :: "number \<Rightarrow> number \<Rightarrow> number" where
  "nsub (Num a) (Num b) = Num (a - b)"
| "nsub _ _ = NaN"

fun nmul :: "number \<Rightarrow> number \<Rightarrow> number" where
  "nmul (Num a) (Num b) = Num (a * b)"
| "nmul _ _ = NaN"

text \<open>\<^verbatim>\<open>s.split(sep)\<close> for a one-character separator: the pieces between the
  separators, one piece more than there are separators.\<close>

fun split_acc :: "char \<Rightarrow> string \<Rightarrow> string \<Rightarrow> string list" where
  "split_acc sep acc [] = [rev acc]"
| "split_acc sep acc (c # cs) =
     (if c = sep then rev acc # split_acc sep [] cs else split_acc sep (c # acc) cs)"

definition js_split :: "char \<Rightarrow> string \<Rightarrow> string list" where
  "js_split sep s = split_acc sep [] s"

text \<open>\<^verbatim>\<open>s.trim()\<close>, for the white space of ASCII.\<close>

definition is_space :: "char \<Rightarrow> bool" where
  "is_space c = (c = CHR '' '' \<or> c = CHR 0x09 \<or> c = CHR 0x0A \<or> c = CHR 0x0B
                 \<or> c = CHR 0x0C \<or> c = CHR 0x0D)"

definition js_trim :: "string \<Rightarrow> string" where
  "js_trim s = rev (dropWhile is_space (rev (dropWhile is_space s)))"


subsection \<open>Segment, variant stream, playlist, shared state\<close>

text \<open>
  The types of \<^verbatim>\<open>types/parsedPlaylist.ts\<close> and \<^verbatim>\<open>types/sharedState.ts\<close>, with
  the fields \<^verbatim>\<open>parse.ts\<close> and the processors read and write. A field that can be
  \<^verbatim>\<open>undefined\<close> is an option; a field that holds an object literal is a \<open>jsval\<close>.
\<close>

record ByteRange =
  range_start :: real
  range_end :: real

record Segment =
  uri :: string
  resolvedUri :: string
  duration :: real
  title :: string
  byteRange :: "ByteRange option"
  bitrate :: "real option"
  isDiscontinuity :: bool
  isGap :: bool
  encryption :: jsval
  initMap :: jsval
  parts :: "jsval list"
  programDateTimeStart :: "real option"
  programDateTimeEnd :: "real option"
  mediaSequence :: real
  discontinuitySequence :: real
  startTime :: real
  endTime :: real

text \<open>A variant stream: the two fields the URI line writes, and the properties
  \<^verbatim>\<open>Object.assign\<close> copies from the EXT-X-STREAM-INF literal.\<close>

record VariantStream =
  variantUri :: string
  variantResolvedUri :: string
  variantProps :: "(string \<times> jsval) list"

record Define =
  defineName :: "(string \<times> jsval) list"
  defineImport :: "(string \<times> jsval) list"
  defineQueryParam :: "(string \<times> jsval) list"

record RenditionGroups =
  audio :: "(string \<times> jsval list) list"
  video :: "(string \<times> jsval list) list"
  subtitles :: "(string \<times> jsval list) list"
  closedCaptions :: "(string \<times> jsval list) list"

record ParsedPlaylist =
  m3u :: bool
  version :: "real option"
  independentSegments :: bool
  endList :: bool
  iFramesOnly :: bool
  playlistType :: "string option"
  targetDuration :: "real option"
  playlistMediaSequence :: real
  playlistDiscontinuitySequence :: real
  start :: jsval
  partInf :: jsval
  serverControl :: jsval
  skip :: jsval
  preloadHintPart :: jsval
  preloadHintMap :: jsval
  renditionReports :: "jsval list"
  playlistDefine :: Define
  sessionKey :: jsval
  sessionData :: "(string \<times> jsval) list"
  contentSteering :: jsval
  segments :: "Segment list"
  dateRanges :: "jsval list"
  variantStreams :: "VariantStream list"
  iFramePlaylists :: "jsval list"
  renditionGroups :: RenditionGroups
  custom :: "(string \<times> jsval) list"

record SharedState =
  currentSegment :: Segment
  currentVariant :: VariantStream
  currentEncryption :: jsval
  currentMap :: jsval
  currentBitrate :: "real option"
  baseUrl :: string
  baseTime :: real
  baseDefine :: "Define option"
  hasVariablesForSubstitution :: bool
  isMultivariantPlaylist :: bool

text \<open>The parser instance: the two protected fields of class \<^verbatim>\<open>Parser\<close>, and the
  strings \<^verbatim>\<open>warnCallback\<close> has received so far, oldest first.\<close>

record Parser =
  parsedPlaylist :: ParsedPlaylist
  sharedState :: SharedState
  warnings :: "string list"

type_synonym attributes = "(string \<times> string) list"

type_synonym customTagProcessor =
  "string \<Rightarrow> string option \<Rightarrow> attributes \<Rightarrow> (string \<times> jsval) list \<Rightarrow> SharedState
     \<Rightarrow> (string \<times> jsval) list \<times> SharedState"

text \<open>\<^verbatim>\<open>ParserOptions\<close> after the constructor has filled in its defaults. A custom
  tag processor mutates the two objects it is handed, \<^verbatim>\<open>playlist.custom\<close> and the
  shared state: it returns the new pair. What it writes, it writes during the call: a
  processor that keeps a reference to an object of the shared state and writes to it after
  the call has returned is outside the model. The debug callback has no effect on the
  parse and is left out.\<close>

record ParserOptions =
  customTagMap :: "string \<Rightarrow> customTagProcessor option"
  ignoreTags :: "string set"
  transformTagValue :: "string \<Rightarrow> string option \<Rightarrow> string option"
  transformTagAttributes :: "string \<Rightarrow> attributes \<Rightarrow> attributes"

record ParseOptions =
  baseUrlOption :: string
  baseDefineOption :: "Define option"
  baseTimeOption :: "real option"

text \<open>
  What the parser calls and the sources do not hold: the helpers of
  \<^verbatim>\<open>utils/parse.ts\<close> and the JavaScript built-ins. They are parameters of the model.
  \<^item> \<open>resolveUri uri base\<close>: the resolved URI, \<open>None\<close> for \<^verbatim>\<open>null\<close>;
  \<^item> \<open>substituteVariables s define\<close>: the string after substitution, and the variable
    names the missing-variable callback is called with, in call order;
  \<^item> \<open>parseBoolean v dflt\<close>, \<open>parseHex s\<close>;
  \<^item> \<open>toNumber s\<close> is \<^verbatim>\<open>Number(s)\<close>, \<open>parseFloat s\<close> is \<^verbatim>\<open>parseFloat(s)\<close>, \<open>dateParse s\<close> is \<^verbatim>\<open>Date.parse(s)\<close>,
    \<open>showNumber x\<close> is the text of a number in a template literal;
  \<^item> \<open>urlSearchParam base q\<close> is \<^verbatim>\<open>new URL(base).searchParams.get(q)\<close>, \<open>None\<close>
    when it is \<^verbatim>\<open>null\<close> or the constructor throws.
\<close>

record Env =
  resolveUri :: "string \<Rightarrow> string \<Rightarrow> string option"
  substituteVariables :: "string \<Rightarrow> Define \<Rightarrow> string \<times> string list"
  parseBoolean :: "jsval \<Rightarrow> bool \<Rightarrow> bool"
  parseHex :: "string \<Rightarrow> jsval"
  toNumber :: "string \<Rightarrow> number"
  parseFloat :: "string \<Rightarrow> number"
  dateParse :: "string \<Rightarrow> number"
  showNumber :: "real \<Rightarrow> string"
  urlSearchParam :: "string \<Rightarrow> string \<Rightarrow> string option"


section \<open>Warnings (\<^verbatim>\<open>utils/warn.ts\<close>)\<close>

definition skipProcessing :: "string \<Rightarrow> string \<Rightarrow> string" where
  "skipProcessing tag reason = ''Skip processing '' @ tag @ ''. Reason: '' @ reason @ ''.''"

definition missingTagValueWarn :: "string \<Rightarrow> string" where
  "missingTagValueWarn tag = skipProcessing tag ''No tag value''"

definition missingRequiredAttributeWarn :: "string \<Rightarrow> string \<Rightarrow> string" where
  "missingRequiredAttributeWarn tag attribute =
     skipProcessing tag (''No required '' @ attribute @ '' attribute'')"

definition missingRequiredVariableForAttributeValueSubstitutionWarn ::
    "string \<Rightarrow> string \<Rightarrow> string \<Rightarrow> string" where
  "missingRequiredVariableForAttributeValueSubstitutionWarn tag attribute variableName =
     tag @ '': Unable to substitute variable for '' @ variableName
       @ '' when processing the following attribute: '' @ attribute"

definition missingRequiredVariableForUriSubstitutionWarn :: "string \<Rightarrow> string \<Rightarrow> string" where
  "missingRequiredVariableForUriSubstitutionWarn u variableName =
     ''Unable to substitute variable for '' @ variableName
       @ '' when processing the following uri: '' @ u"

definition unsupportedTagWarn :: "string \<Rightarrow> string" where
  "unsupportedTagWarn tag = skipProcessing tag ''Unsupported''"

definition unableToParseValueWarn :: "string \<Rightarrow> string" where
  "unableToParseValueWarn tag = skipProcessing tag ''Unable to parse tag value''"

definition failedToResolveUriAttribute :: "string \<Rightarrow> string \<Rightarrow> string \<Rightarrow> string \<Rightarrow> string" where
  "failedToResolveUriAttribute tag attribute uriValue base =
     tag @ '': Failed to resolve '' @ attribute @ ''. Value: '' @ uriValue
       @ ''. Base URL: '' @ base"

definition failedToResolveUri :: "string \<Rightarrow> string \<Rightarrow> string" where
  "failedToResolveUri uriValue base = ''Failed to resolve '' @ uriValue @ ''. Base URL: '' @ base"

fun join_comma :: "string list \<Rightarrow> string" where
  "join_comma [] = []"
| "join_comma [x] = x"
| "join_comma (x # y # ys) = x @ '','' @ join_comma (y # ys)"

definition unsupportedEnumValue :: "string \<Rightarrow> string \<Rightarrow> string list \<Rightarrow> string" where
  "unsupportedEnumValue tag actual required =
     skipProcessing tag (''received unsupported tag value: '' @ actual
       @ ''. Possible values: '' @ join_comma required)"

definition ignoreTagWarn :: "string \<Rightarrow> string" where
  "ignoreTagWarn tag = skipProcessing tag ''Tag is included in the ignore list''"

definition segmentDurationExceededTargetDuration :: "Env \<Rightarrow> string \<Rightarrow> real \<Rightarrow> real \<Rightarrow> string" where
  "segmentDurationExceededTargetDuration env segmentUri segmentDuration target =
     ''Segment duration is more than target duration. Difference is ''
       @ showNumber env (segmentDuration - target) @ ''. Uri is '' @ segmentUri"

text \<open>\<^verbatim>\<open>this.warnCallback(w)\<close>: the string is appended to the log.\<close>

definition warn :: "string \<Rightarrow> Parser \<Rightarrow> Parser" where
  "warn w st = st\<lparr>warnings := warnings st @ [w]\<rparr>"

definition warnAll :: "string list \<Rightarrow> Parser \<Rightarrow> Parser" where
  "warnAll ws st = st\<lparr>warnings := warnings st @ ws\<rparr>"

section \<open>Defaults\<close>

text \<open>
  Modelled from the spec: \<^verbatim>\<open>consts/defaults.ts\<close> is not among the sources. The
  defaults are the ones sections 3.1 to 3.3 of the specification give: flags false,
  sequences empty, sequence numbers and times 0, optional fields unset.
\<close>

definition createDefaultSegment :: Segment where
  "createDefaultSegment = \<lparr> uri = [], resolvedUri = [], duration = 0, title = [],
     byteRange = None, bitrate = None, isDiscontinuity = False, isGap = False,
     encryption = Undefined, initMap = Undefined, parts = [],
     programDateTimeStart = None, programDateTimeEnd = None,
     mediaSequence = 0, discontinuitySequence = 0, startTime = 0, endTime = 0 \<rparr>"

definition createDefaultVariantStream :: VariantStream where
  "createDefaultVariantStream =
     \<lparr> variantUri = [], variantResolvedUri = [], variantProps = [] \<rparr>"

definition createDefaultParsedPlaylist :: ParsedPlaylist where
  "createDefaultParsedPlaylist = \<lparr> m3u = False, version = None, independentSegments = False,
     endList = False, iFramesOnly = False, playlistType = None, targetDuration = None,
     playlistMediaSequence = 0, playlistDiscontinuitySequence = 0,
     start = Undefined, partInf = Undefined, serverControl = Undefined, skip = Undefined,
     preloadHintPart = Undefined, preloadHintMap = Undefined, renditionReports = [],
     playlistDefine = \<lparr> defineName = [], defineImport = [], defineQueryParam = [] \<rparr>,
     sessionKey = Undefined, sessionData = [], contentSteering = Undefined,
     segments = [], dateRanges = [], variantStreams = [], iFramePlaylists = [],
     renditionGroups = \<lparr> audio = [], video = [], subtitles = [], closedCaptions = [] \<rparr>,
     custom = [] \<rparr>"

definition createDefaultSharedState :: SharedState where
  "createDefaultSharedState = \<lparr> currentSegment = createDefaultSegment,
     currentVariant = createDefaultVariantStream, currentEncryption = Undefined,
     currentMap = Undefined, currentBitrate = None, baseUrl = [], baseTime = 0,
     baseDefine = None, hasVariablesForSubstitution = False,
     isMultivariantPlaylist = False \<rparr>"

text \<open>The state the constructor of \<^verbatim>\<open>Parser\<close> leaves: both defaults, nothing warned.\<close>

definition newParser :: Parser where
  "newParser = \<lparr> parsedPlaylist = createDefaultParsedPlaylist,
     sharedState = createDefaultSharedState, warnings = [] \<rparr>"


section \<open>Attribute-tag processors (\<^verbatim>\<open>tags/tagWithAttributesProcessors.ts\<close>)\<close>

text \<open>
  Modelled from the spec: \<^verbatim>\<open>consts/tags.ts\<close> is not among the sources. The tag keys
  are the names section 6.1 of the specification lists.
\<close>

definition EXT_X_START :: string where "EXT_X_START = ''EXT-X-START''"
definition EXT_X_PART_INF :: string where "EXT_X_PART_INF = ''EXT-X-PART-INF''"
definition EXT_X_SERVER_CONTROL :: string where "EXT_X_SERVER_CONTROL = ''EXT-X-SERVER-CONTROL''"
definition EXT_X_KEY :: string where "EXT_X_KEY = ''EXT-X-KEY''"
definition EXT_X_MAP :: string where "EXT_X_MAP = ''EXT-X-MAP''"
definition EXT_X_PART :: string where "EXT_X_PART = ''EXT-X-PART''"
definition EXT_X_SKIP :: string where "EXT_X_SKIP = ''EXT-X-SKIP''"
definition EXT_X_MEDIA :: string where "EXT_X_MEDIA = ''EXT-X-MEDIA''"
definition EXT_X_STREAM_INF :: string where "EXT_X_STREAM_INF = ''EXT-X-STREAM-INF''"
definition EXT_X_I_FRAME_STREAM_INF :: string where
  "EXT_X_I_FRAME_STREAM_INF = ''EXT-X-I-FRAME-STREAM-INF''"
definition EXT_X_DATERANGE :: string where "EXT_X_DATERANGE = ''EXT-X-DATERANGE''"
definition EXT_X_PRELOAD_HINT :: string where "EXT_X_PRELOAD_HINT = ''EXT-X-PRELOAD-HINT''"
definition EXT_X_RENDITION_REPORT :: string where
  "EXT_X_RENDITION_REPORT = ''EXT-X-RENDITION-REPORT''"
definition EXT_X_SESSION_DATA :: string where "EXT_X_SESSION_DATA = ''EXT-X-SESSION-DATA''"
definition EXT_X_SESSION_KEY :: string where "EXT_X_SESSION_KEY = ''EXT-X-SESSION-KEY''"
definition EXT_X_CONTENT_STEERING :: string where
  "EXT_X_CONTENT_STEERING = ''EXT-X-CONTENT-STEERING''"
definition EXT_X_DEFINE :: string where "EXT_X_DEFINE = ''EXT-X-DEFINE''"

subsection \<open>The abstract class \<^verbatim>\<open>TagWithAttributesProcessor\<close>\<close>

text \<open>
  A processor is its tag, its required attributes in the insertion order of the
  \<^verbatim>\<open>Set\<close>, and its \<^verbatim>\<open>safeProcess\<close>, which returns the new parser state or the
  exception it throws.
\<close>

record TagWithAttributesProcessor =
  tag_of :: string
  requiredAttributes :: "string list"
  safeProcess :: "Env \<Rightarrow> attributes \<Rightarrow> Parser \<Rightarrow> error + Parser"

text \<open>Reads of \<^verbatim>\<open>tagAttributes[k]\<close>: as a value, under \<^verbatim>\<open>Number(...)\<close>, and as the
  string it is when \<^verbatim>\<open>checkRequiredAttributes\<close> found the key present (the only way
  \<^verbatim>\<open>process\<close> reaches \<^verbatim>\<open>safeProcess\<close>). The attribute names the processors
  read and require are none of the property names an object inherits, so
  \<^verbatim>\<open>requiredAttribute in tagAttributes\<close> and \<^verbatim>\<open>tagAttributes[k]\<close> are lookups among the
  keys of the attribute list.\<close>

definition attr :: "attributes \<Rightarrow> string \<Rightarrow> jsval" where
  "attr attrs k = (case obj_get attrs k of Some s \<Rightarrow> Str s | None \<Rightarrow> Undefined)"

definition attrNumber :: "Env \<Rightarrow> attributes \<Rightarrow> string \<Rightarrow> number" where
  "attrNumber env attrs k = (case obj_get attrs k of Some s \<Rightarrow> toNumber env s | None \<Rightarrow> NaN)"

definition attrString :: "attributes \<Rightarrow> string \<Rightarrow> string" where
  "attrString attrs k = (case obj_get attrs k of Some s \<Rightarrow> s | None \<Rightarrow> [])"

definition numberOrUndefined :: "Env \<Rightarrow> attributes \<Rightarrow> string \<Rightarrow> jsval" where
  "numberOrUndefined env attrs k =
     (if truthy (attr attrs k) then Number (attrNumber env attrs k) else Undefined)"

fun checkRequiredLoop :: "string \<Rightarrow> attributes \<Rightarrow> string list \<Rightarrow> bool \<times> Parser \<Rightarrow> bool \<times> Parser" where
  "checkRequiredLoop t attrs [] acc = acc"
| "checkRequiredLoop t attrs (requiredAttribute # rest) (isRequiredAttributedMissed, st) =
     (let hasRequiredAttribute = (obj_get attrs requiredAttribute \<noteq> None)
      in if \<not> hasRequiredAttribute
         then checkRequiredLoop t attrs rest
                (True, warn (missingRequiredAttributeWarn t requiredAttribute) st)
         else checkRequiredLoop t attrs rest (isRequiredAttributedMissed, st))"

definition checkRequiredAttributes ::
    "TagWithAttributesProcessor \<Rightarrow> attributes \<Rightarrow> Parser \<Rightarrow> bool \<times> Parser" where
  "checkRequiredAttributes p attrs st =
     checkRequiredLoop (tag_of p) attrs (requiredAttributes p) (False, st)"

text \<open>The \<^verbatim>\<open>for ... in\<close> loop of \<^verbatim>\<open>runVariableSubstitution\<close>: every value is
  replaced in place, and each missing variable is warned about as it is met.\<close>

fun substituteLoop :: "Env \<Rightarrow> string \<Rightarrow> attributes \<Rightarrow> Parser \<Rightarrow> attributes \<times> Parser" where
  "substituteLoop env t [] st = ([], st)"
| "substituteLoop env t ((attributeKey, attributeValue) # rest) st =
     (let (v, missing) =
            substituteVariables env attributeValue (playlistDefine (parsedPlaylist st));
          st1 = warnAll (map (missingRequiredVariableForAttributeValueSubstitutionWarn t
                                attributeKey) missing) st;
          (rest', st2) = substituteLoop env t rest st1
      in ((attributeKey, v) # rest', st2))"

definition runVariableSubstitution ::
    "Env \<Rightarrow> TagWithAttributesProcessor \<Rightarrow> attributes \<Rightarrow> Parser \<Rightarrow> attributes \<times> Parser" where
  "runVariableSubstitution env p attrs st =
     (if \<not> hasVariablesForSubstitution (sharedState st) then (attrs, st)
      else substituteLoop env (tag_of p) attrs st)"

definition process ::
    "Env \<Rightarrow> TagWithAttributesProcessor \<Rightarrow> attributes \<Rightarrow> Parser \<Rightarrow> error + Parser" where
  "process env p attrs st =
     (let (missed, st1) = checkRequiredAttributes p attrs st
      in if missed then Inr st1
         else (let (attrs', st2) = runVariableSubstitution env p attrs st1
               in safeProcess p env attrs' st2))"

definition resolveUriAttribute ::
    "Env \<Rightarrow> string \<Rightarrow> string \<Rightarrow> string \<Rightarrow> string \<Rightarrow> Parser \<Rightarrow> string \<times> Parser" where
  "resolveUriAttribute env t u base attributeKey st =
     (case resolveUri env u base of
        None \<Rightarrow> (u, warn (failedToResolveUriAttribute t attributeKey u base) st)
      | Some resolved \<Rightarrow> (resolved, st))"

text \<open>The pattern \<^verbatim>\<open>uri ? this.resolveUriAttribute(uri, ...) : undefined\<close> of the
  processors whose URI attribute is optional.\<close>

definition resolveOptionalUri ::
    "Env \<Rightarrow> string \<Rightarrow> attributes \<Rightarrow> string \<Rightarrow> Parser \<Rightarrow> jsval \<times> Parser" where
  "resolveOptionalUri env t attrs attributeKey st =
     (if truthy (attr attrs attributeKey)
      then (let (r, st1) = resolveUriAttribute env t (attrString attrs attributeKey)
                             (baseUrl (sharedState st)) attributeKey st
            in (Str r, st1))
      else (Undefined, st))"


subsection \<open>The concrete processors\<close>

definition ExtXStart_safeProcess :: "Env \<Rightarrow> attributes \<Rightarrow> Parser \<Rightarrow> error + Parser" where
  "ExtXStart_safeProcess env attrs st =
     Inr (st\<lparr>parsedPlaylist := (parsedPlaylist st)\<lparr>start := Obj
       [(''timeOffset'', Number (attrNumber env attrs ''TIME-OFFSET'')),
        (''precise'', Bool (parseBoolean env (attr attrs ''PRECISE'') False))]\<rparr>\<rparr>)"

definition ExtXStart :: TagWithAttributesProcessor where
  "ExtXStart = \<lparr> tag_of = EXT_X_START, requiredAttributes = [''TIME-OFFSET''],
     safeProcess = ExtXStart_safeProcess \<rparr>"

definition ExtXPartInf_safeProcess :: "Env \<Rightarrow> attributes \<Rightarrow> Parser \<Rightarrow> error + Parser" where
  "ExtXPartInf_safeProcess env attrs st =
     Inr (st\<lparr>parsedPlaylist := (parsedPlaylist st)\<lparr>partInf := Obj
       [(''partTarget'', Number (attrNumber env attrs ''PART-TARGET''))]\<rparr>\<rparr>)"

definition ExtXPartInf :: TagWithAttributesProcessor where
  "ExtXPartInf = \<lparr> tag_of = EXT_X_PART_INF, requiredAttributes = [''PART-TARGET''],
     safeProcess = ExtXPartInf_safeProcess \<rparr>"

definition ExtXServerControl_safeProcess :: "Env \<Rightarrow> attributes \<Rightarrow> Parser \<Rightarrow> error + Parser" where
  "ExtXServerControl_safeProcess env attrs st =
     (let playlist = parsedPlaylist st;
          holdBack =
            (if truthy (attr attrs ''HOLD-BACK'') then Number (attrNumber env attrs ''HOLD-BACK'')
             else (case targetDuration playlist of
                     Some t \<Rightarrow> if t \<noteq> 0 then Number (Num (t * 3)) else Undefined
                   | None \<Rightarrow> Undefined));
          partHoldBack =
            (if truthy (attr attrs ''PART-HOLD-BACK'')
             then Number (attrNumber env attrs ''PART-HOLD-BACK'')
             else if truthy (js_get (partInf playlist) ''partTarget'')
             then Number (nmul (num_of (js_get (partInf playlist) ''partTarget'')) (Num 3))
             else Undefined)
      in Inr (st\<lparr>parsedPlaylist := playlist\<lparr>serverControl := Obj
           [(''canSkipUntil'', numberOrUndefined env attrs ''CAN-SKIP-UNTIL''),
            (''canBlockReload'', Bool (parseBoolean env (attr attrs ''CAN-BLOCK-RELOAD'') False)),
            (''canSkipDateRanges'',
               Bool (parseBoolean env (attr attrs ''CAN-SKIP-DATERANGES'') False)),
            (''holdBack'', holdBack),
            (''partHoldBack'', partHoldBack)]\<rparr>\<rparr>))"

definition ExtXServerControl :: TagWithAttributesProcessor where
  "ExtXServerControl = \<lparr> tag_of = EXT_X_SERVER_CONTROL, requiredAttributes = [],
     safeProcess = ExtXServerControl_safeProcess \<rparr>"

text \<open>\<^verbatim>\<open>EncryptionTagProcessor.parseEncryptionTag\<close>: the encryption object, and the
  state after the warning a failed URI resolution gives.\<close>

definition parseEncryptionTag :: "Env \<Rightarrow> string \<Rightarrow> attributes \<Rightarrow> Parser \<Rightarrow> jsval \<times> Parser" where
  "parseEncryptionTag env t attrs st =
     (let (resolved, st1) = resolveOptionalUri env t attrs ''URI'' st
      in (Obj [(''method'', attr attrs ''METHOD''),
               (''uri'', attr attrs ''URI''),
               (''resolvedUri'', resolved),
               (''iv'', attr attrs ''IV''),
               (''keyFormat'', if truthy (attr attrs ''KEYFORMAT'') then attr attrs ''KEYFORMAT''
                               else Str ''identity''),
               (''keyFormatVersions'',
                  if truthy (attr attrs ''KEYFORMATVERSIONS'')
                  then Arr (map (\<lambda>x. Number (toNumber env x))
                              (js_split (CHR ''/'') (attrString attrs ''KEYFORMATVERSIONS'')))
                  else Arr [Number (Num 1)])],
          st1))"

definition ExtXKey_safeProcess :: "Env \<Rightarrow> attributes \<Rightarrow> Parser \<Rightarrow> error + Parser" where
  "ExtXKey_safeProcess env attrs st =
     (let (encryption, st1) = parseEncryptionTag env EXT_X_KEY attrs st
      in if js_get encryption ''method'' \<noteq> Str ''NONE'' \<and> \<not> truthy (js_get encryption ''uri'')
         then Inr (warn (missingRequiredAttributeWarn EXT_X_KEY ''URI'') st1)
         else Inr (st1\<lparr>sharedState := (sharedState st1)\<lparr>currentEncryption := encryption\<rparr>\<rparr>))"

definition ExtXKey :: TagWithAttributesProcessor where
  "ExtXKey = \<lparr> tag_of = EXT_X_KEY, requiredAttributes = [''METHOD''],
     safeProcess = ExtXKey_safeProcess \<rparr>"

definition ExtXMap_safeProcess :: "Env \<Rightarrow> attributes \<Rightarrow> Parser \<Rightarrow> error + Parser" where
  "ExtXMap_safeProcess env attrs st =
     (let range =
            (if truthy (attr attrs ''BYTERANGE'')
             then (let values = map (\<lambda>x. Number (toNumber env x))
                                  (js_split (CHR ''@'') (attrString attrs ''BYTERANGE''));
                       len = (case values of l # _ \<Rightarrow> l | [] \<Rightarrow> Undefined);
                       offset = (case values of _ # x # _ \<Rightarrow> x | _ \<Rightarrow> Undefined)
                   in Obj [(''start'', offset),
                           (''end'', Number (nsub (nadd (num_of offset) (num_of len)) (Num 1)))])
             else Undefined);
          u = attrString attrs ''URI'';
          (resolved, st1) =
            resolveUriAttribute env EXT_X_MAP u (baseUrl (sharedState st)) ''URI'' st
      in Inr (st1\<lparr>sharedState := (sharedState st1)\<lparr>currentMap := Obj
           [(''uri'', Str u), (''resolvedUri'', Str resolved), (''byteRange'', range),
            (''encryption'', currentEncryption (sharedState st1))]\<rparr>\<rparr>))"

definition ExtXMap :: TagWithAttributesProcessor where
  "ExtXMap = \<lparr> tag_of = EXT_X_MAP, requiredAttributes = [''URI''],
     safeProcess = ExtXMap_safeProcess \<rparr>"

text \<open>\<^verbatim>\<open>parts?.[parts.length - 1]\<close>: the last part, \<^verbatim>\<open>undefined\<close> when there is none.\<close>

definition lastPart :: "jsval list \<Rightarrow> jsval" where
  "lastPart ps = (if ps = [] then Undefined else last ps)"

definition pushPart :: "jsval \<Rightarrow> Parser \<Rightarrow> Parser" where
  "pushPart part st =
     st\<lparr>sharedState := (sharedState st)\<lparr>currentSegment :=
       (currentSegment (sharedState st))\<lparr>parts := parts (currentSegment (sharedState st)) @ [part]\<rparr>\<rparr>\<rparr>"

definition ExtXPart_safeProcess :: "Env \<Rightarrow> attributes \<Rightarrow> Parser \<Rightarrow> error + Parser" where
  "ExtXPart_safeProcess env attrs st =
     (let u = attrString attrs ''URI'';
          (resolved, st1) =
            resolveUriAttribute env EXT_X_PART u (baseUrl (sharedState st)) ''URI'' st;
          part = [(''uri'', Str u), (''resolvedUri'', Str resolved),
                  (''duration'', Number (attrNumber env attrs ''DURATION'')),
                  (''isGap'', Bool (parseBoolean env (attr attrs ''GAP'') False)),
                  (''independent'', Bool (parseBoolean env (attr attrs ''INDEPENDENT'') False))];
          withRange = (\<lambda>offset len. Obj (part @ [(''byteRange'', Obj
                         [(''start'', Number offset),
                          (''end'', Number (nsub (nadd offset len) (Num 1)))])]))
      in if truthy (attr attrs ''BYTERANGE'')
         then (let values = js_split (CHR ''@'') (attrString attrs ''BYTERANGE'');
                   len = (case values of l # _ \<Rightarrow> toNumber env l | [] \<Rightarrow> NaN);
                   offset = (case values of _ # x # _ \<Rightarrow> toNumber env x | _ \<Rightarrow> NaN)
               in if offset = NaN
                  then (let previousPartialSegment =
                              lastPart (parts (currentSegment (sharedState st1)))
                        in if \<not> truthy previousPartialSegment
                              \<or> \<not> truthy (js_get previousPartialSegment ''byteRange'')
                           then Inr (warn (''Unable to parse '' @ EXT_X_PART
                                  @ '': A BYTERANGE attribute without offset requires a previous partial segment with a byterange'') st1)
                           else Inr (pushPart (withRange
                                  (nadd (num_of (js_get (js_get previousPartialSegment
                                     ''byteRange'') ''end'')) (Num 1)) len) st1))
                  else Inr (pushPart (withRange offset len) st1))
         else Inr (pushPart (Obj part) st1))"

definition ExtXPart :: TagWithAttributesProcessor where
  "ExtXPart = \<lparr> tag_of = EXT_X_PART, requiredAttributes = [''URI'', ''DURATION''],
     safeProcess = ExtXPart_safeProcess \<rparr>"

text \<open>
  \<^verbatim>\<open>ExtXSkip.safeProcess\<close>. The condition of the conditional expression is the constant
  \<^verbatim>\<open>ExtXSkip.RECENTLY_REMOVED_DATERANGES\<close>, the attribute's name, not the attribute's
  value; then \<^verbatim>\<open>tagAttributes[...].split('\t')\<close> is evaluated, and calling
  \<^verbatim>\<open>split\<close> on \<^verbatim>\<open>undefined\<close> throws a \<^verbatim>\<open>TypeError\<close>.
\<close>

definition RECENTLY_REMOVED_DATERANGES :: string where
  "RECENTLY_REMOVED_DATERANGES = ''RECENTLY-REMOVED-DATERANGES''"

definition ExtXSkip_safeProcess :: "Env \<Rightarrow> attributes \<Rightarrow> Parser \<Rightarrow> error + Parser" where
  "ExtXSkip_safeProcess env attrs st =
     (let setSkip = (\<lambda>removed. st\<lparr>parsedPlaylist := (parsedPlaylist st)\<lparr>skip := Obj
            [(''skippedSegments'', Number (attrNumber env attrs ''SKIPPED-SEGMENTS'')),
             (''recentlyRemovedDateRanges'', Arr removed)]\<rparr>\<rparr>)
      in if truthy (Str RECENTLY_REMOVED_DATERANGES)
         then (case obj_get attrs RECENTLY_REMOVED_DATERANGES of
                 None \<Rightarrow> Inl TypeError
               | Some v \<Rightarrow> Inr (setSkip (map Str (js_split (CHR 0x09) v))))
         else Inr (setSkip []))"

definition ExtXSkip :: TagWithAttributesProcessor where
  "ExtXSkip = \<lparr> tag_of = EXT_X_SKIP, requiredAttributes = [''SKIPPED-SEGMENTS''],
     safeProcess = ExtXSkip_safeProcess \<rparr>"


datatype RenditionKey = KeyAudio | KeyVideo | KeySubtitles | KeyClosedCaptions

definition typeToKeyMap :: "string \<Rightarrow> RenditionKey option" where
  "typeToKeyMap t =
     (if t = ''AUDIO'' then Some KeyAudio
      else if t = ''VIDEO'' then Some KeyVideo
      else if t = ''SUBTITLES'' then Some KeySubtitles
      else if t = ''CLOSED-CAPTIONS'' then Some KeyClosedCaptions
      else None)"

text \<open>\<^verbatim>\<open>playlist.renditionGroups[renditionTypeKey][rendition.groupId]\<close> and what follows:
  the group of \<open>groupId\<close> gets the rendition pushed, or is created with it. For a group id
  that is one of the inherited property names the lookup finds the inherited value, which
  is truthy and has no \<^verbatim>\<open>push\<close>: the call throws.\<close>

definition addRendition ::
    "string \<Rightarrow> jsval \<Rightarrow> (string \<times> jsval list) list \<Rightarrow> error + (string \<times> jsval list) list" where
  "addRendition groupId rendition groups =
     (case obj_get groups groupId of
        Some matchingGroup \<Rightarrow> Inr (obj_set groupId (matchingGroup @ [rendition]) groups)
      | None \<Rightarrow>
          if groupId \<in> set objectPrototypeKeys then Inl TypeError
          else Inr (obj_set groupId [rendition] groups))"

text \<open>
  \<^verbatim>\<open>ExtXMedia.safeProcess\<close>. A \<^verbatim>\<open>TYPE\<close> outside the four keys of
  \<^verbatim>\<open>typeToKeyMap\<close> gives no rendition group, and reading the group id off
  \<^verbatim>\<open>undefined\<close> throws.
\<close>

definition ExtXMedia_safeProcess :: "Env \<Rightarrow> attributes \<Rightarrow> Parser \<Rightarrow> error + Parser" where
  "ExtXMedia_safeProcess env attrs st =
     (let (resolved, st1) = resolveOptionalUri env EXT_X_MEDIA attrs ''URI'' st;
          rendition = Obj
            [(''uri'', attr attrs ''URI''),
             (''resolvedUri'', resolved),
             (''type'', attr attrs ''TYPE''),
             (''groupId'', attr attrs ''GROUP-ID''),
             (''name'', attr attrs ''NAME''),
             (''language'', attr attrs ''LANGUAGE''),
             (''assocLanguage'', attr attrs ''ASSOC-LANGUAGE''),
             (''default'', Bool (parseBoolean env (attr attrs ''DEFAULT'') False)),
             (''autoSelect'', Bool (parseBoolean env (attr attrs ''AUTOSELECT'') False)),
             (''forced'', Bool (parseBoolean env (attr attrs ''FORCED'') False)),
             (''inStreamId'', attr attrs ''INSTREAM-ID''),
             (''characteristics'',
                if truthy (attr attrs ''CHARACTERISTICS'')
                then Arr (map Str (js_split (CHR '','') (attrString attrs ''CHARACTERISTICS'')))
                else Arr []),
             (''channels'',
                if truthy (attr attrs ''CHANNELS'')
                then Arr (map Str (js_split (CHR ''/'') (attrString attrs ''CHANNELS'')))
                else Arr []),
             (''stableRenditionId'', attr attrs ''STABLE-RENDITION-ID'')];
          groupId = attrString attrs ''GROUP-ID'';
          playlist = parsedPlaylist st1;
          groups = renditionGroups playlist;
          setGroups = (\<lambda>g. st1\<lparr>parsedPlaylist := playlist\<lparr>renditionGroups := g\<rparr>\<rparr>)
      in case typeToKeyMap (attrString attrs ''TYPE'') of
           None \<Rightarrow> Inl TypeError
         | Some KeyAudio \<Rightarrow>
             (case addRendition groupId rendition (audio groups) of
                Inl e \<Rightarrow> Inl e
              | Inr g \<Rightarrow> Inr (setGroups (groups\<lparr>audio := g\<rparr>)))
         | Some KeyVideo \<Rightarrow>
             (case addRendition groupId rendition (video groups) of
                Inl e \<Rightarrow> Inl e
              | Inr g \<Rightarrow> Inr (setGroups (groups\<lparr>video := g\<rparr>)))
         | Some KeySubtitles \<Rightarrow>
             (case addRendition groupId rendition (subtitles groups) of
                Inl e \<Rightarrow> Inl e
              | Inr g \<Rightarrow> Inr (setGroups (groups\<lparr>subtitles := g\<rparr>)))
         | Some KeyClosedCaptions \<Rightarrow>
             (case addRendition groupId rendition (closedCaptions groups) of
                Inl e \<Rightarrow> Inl e
              | Inr g \<Rightarrow> Inr (setGroups (groups\<lparr>closedCaptions := g\<rparr>))))"

definition ExtXMedia :: TagWithAttributesProcessor where
  "ExtXMedia = \<lparr> tag_of = EXT_X_MEDIA, requiredAttributes = [''TYPE'', ''GROUP-ID'', ''NAME''],
     safeProcess = ExtXMedia_safeProcess \<rparr>"

subsection \<open>\<^verbatim>\<open>BaseStreamInfProcessor\<close>\<close>

definition parseResolution :: "Env \<Rightarrow> jsval \<Rightarrow> jsval" where
  "parseResolution env v =
     (let parsedResolution =
            (case v of Str s \<Rightarrow> if s \<noteq> [] then map (toNumber env) (js_split (CHR ''x'') s) else []
                     | _ \<Rightarrow> [])
      in case parsedResolution of
           [w, h] \<Rightarrow> Obj [(''width'', Number w), (''height'', Number h)]
         | _ \<Rightarrow> Undefined)"

definition cpcEntry :: "string \<Rightarrow> (string \<times> jsval) list \<Rightarrow> (string \<times> jsval) list" where
  "cpcEntry entry cpcRecord =
     (let parsedEntry = js_split (CHR '':'') entry;
          keyFormat = (case parsedEntry of k # _ \<Rightarrow> k | [] \<Rightarrow> [])
      in if keyFormat \<noteq> []
         then obj_set keyFormat
                (case parsedEntry of
                   _ # x # _ \<Rightarrow> if x \<noteq> [] then Arr (map Str (js_split (CHR ''/'') x)) else Arr []
                 | _ \<Rightarrow> Arr [])
                cpcRecord
         else cpcRecord)"

definition parseAllowedCpc :: "jsval \<Rightarrow> jsval" where
  "parseAllowedCpc v =
     (let parsedAllowedCpc =
            (case v of Str s \<Rightarrow> if s \<noteq> [] then js_split (CHR '','') s else [] | _ \<Rightarrow> [])
      in Obj (fold cpcEntry parsedAllowedCpc []))"

definition codecList :: "attributes \<Rightarrow> string \<Rightarrow> jsval" where
  "codecList attrs k =
     (if truthy (attr attrs k)
      then Arr (map (\<lambda>codec. Str (js_trim codec)) (js_split (CHR '','') (attrString attrs k)))
      else Arr [])"

definition parseCommonAttributes :: "Env \<Rightarrow> attributes \<Rightarrow> (string \<times> jsval) list" where
  "parseCommonAttributes env attrs =
     [(''uri'', Str []),
      (''resolvedUri'', Str []),
      (''bandwidth'', Number (attrNumber env attrs ''BANDWIDTH'')),
      (''averageBandwidth'', numberOrUndefined env attrs ''AVERAGE-BANDWIDTH''),
      (''score'', numberOrUndefined env attrs ''SCORE''),
      (''codecs'', codecList attrs ''CODECS''),
      (''supplementalCodecs'', codecList attrs ''SUPPLEMENTAL-CODECS''),
      (''resolution'', parseResolution env (attr attrs ''RESOLUTION'')),
      (''hdcpLevel'', attr attrs ''HDCP-LEVEL''),
      (''allowedCpc'', parseAllowedCpc (attr attrs ''ALLOWED-CPC'')),
      (''videoRange'', attr attrs ''VIDEO-RANGE''),
      (''stableVariantId'', attr attrs ''STABLE-VARIANT-ID''),
      (''video'', attr attrs ''VIDEO''),
      (''pathwayId'', attr attrs ''PATHWAY-ID'')]"

text \<open>\<^verbatim>\<open>Object.assign(currentVariant, source)\<close>: every property of the source is
  written to the variant, \<^verbatim>\<open>uri\<close> and \<^verbatim>\<open>resolvedUri\<close> to its two string fields.\<close>

definition string_of :: "jsval \<Rightarrow> string" where
  "string_of v = (case v of Str s \<Rightarrow> s | _ \<Rightarrow> [])"

definition assignProperty :: "string \<times> jsval \<Rightarrow> VariantStream \<Rightarrow> VariantStream" where
  "assignProperty kv variant =
     (if fst kv = ''uri'' then variant\<lparr>variantUri := string_of (snd kv)\<rparr>
      else if fst kv = ''resolvedUri'' then variant\<lparr>variantResolvedUri := string_of (snd kv)\<rparr>
      else variant\<lparr>variantProps := obj_set (fst kv) (snd kv) (variantProps variant)\<rparr>)"

definition objectAssign :: "VariantStream \<Rightarrow> (string \<times> jsval) list \<Rightarrow> VariantStream" where
  "objectAssign variant source = fold assignProperty source variant"

definition ExtXStreamInf_safeProcess :: "Env \<Rightarrow> attributes \<Rightarrow> Parser \<Rightarrow> error + Parser" where
  "ExtXStreamInf_safeProcess env attrs st =
     (let variantStream = parseCommonAttributes env attrs @
            [(''frameRate'', numberOrUndefined env attrs ''FRAME-RATE''),
             (''audio'', attr attrs ''AUDIO''),
             (''subtitles'', attr attrs ''SUBTITLES''),
             (''closedCaptions'', attr attrs ''CLOSED-CAPTIONS'')]
      in Inr (st\<lparr>sharedState := (sharedState st)
           \<lparr>currentVariant := objectAssign (currentVariant (sharedState st)) variantStream,
            isMultivariantPlaylist := True\<rparr>\<rparr>))"

definition ExtXStreamInf :: TagWithAttributesProcessor where
  "ExtXStreamInf = \<lparr> tag_of = EXT_X_STREAM_INF, requiredAttributes = [''BANDWIDTH''],
     safeProcess = ExtXStreamInf_safeProcess \<rparr>"

definition ExtXIFrameStreamInf_safeProcess :: "Env \<Rightarrow> attributes \<Rightarrow> Parser \<Rightarrow> error + Parser" where
  "ExtXIFrameStreamInf_safeProcess env attrs st =
     (let u = attrString attrs ''URI'';
          (resolved, st1) = resolveUriAttribute env EXT_X_I_FRAME_STREAM_INF u
                              (baseUrl (sharedState st)) ''URI'' st;
          iFrameStreamInf = Obj (obj_set ''resolvedUri'' (Str resolved)
                                  (obj_set ''uri'' (Str u) (parseCommonAttributes env attrs)))
      in Inr (st1\<lparr>parsedPlaylist := (parsedPlaylist st1)
           \<lparr>iFramePlaylists := iFramePlaylists (parsedPlaylist st1) @ [iFrameStreamInf]\<rparr>\<rparr>))"

definition ExtXIFrameStreamInf :: TagWithAttributesProcessor where
  "ExtXIFrameStreamInf = \<lparr> tag_of = EXT_X_I_FRAME_STREAM_INF,
     requiredAttributes = [''BANDWIDTH'', ''URI''],
     safeProcess = ExtXIFrameStreamInf_safeProcess \<rparr>"


definition hexOrUndefined :: "Env \<Rightarrow> attributes \<Rightarrow> string \<Rightarrow> jsval" where
  "hexOrUndefined env attrs k =
     (if truthy (attr attrs k) then parseHex env (attrString attrs k) else Undefined)"

definition startsWith :: "string \<Rightarrow> string \<Rightarrow> bool" where
  "startsWith s pre = prefix pre s"

definition ExtXDateRange_safeProcess :: "Env \<Rightarrow> attributes \<Rightarrow> Parser \<Rightarrow> error + Parser" where
  "ExtXDateRange_safeProcess env attrs st =
     (let clientAttributes =
            fold (\<lambda>tagKey acc. obj_set tagKey (attr attrs tagKey) acc)
              (filter (\<lambda>tagKey. startsWith tagKey ''X-'') (map fst attrs)) [];
          dateRange = Obj
            [(''id'', attr attrs ''ID''),
             (''class'', attr attrs ''CLASS''),
             (''startDate'', Number (dateParse env (attrString attrs ''START-DATE''))),
             (''cues'', if truthy (attr attrs ''CUE'')
                        then Arr (map Str (js_split (CHR '','') (attrString attrs ''CUE'')))
                        else Arr []),
             (''endDate'', attr attrs ''END-DATE''),
             (''duration'', numberOrUndefined env attrs ''DURATION''),
             (''plannedDuration'', numberOrUndefined env attrs ''PLANNED-DURATION''),
             (''scte35Cmd'', hexOrUndefined env attrs ''SCTE35-CMD''),
             (''scte35Out'', hexOrUndefined env attrs ''SCTE35-OUT''),
             (''scte35In'', hexOrUndefined env attrs ''SCTE35-IN''),
             (''endOnNext'', Bool (parseBoolean env (attr attrs ''END-ON-NEXT'') False)),
             (''clientAttributes'', Obj clientAttributes)]
      in Inr (st\<lparr>parsedPlaylist := (parsedPlaylist st)
           \<lparr>dateRanges := dateRanges (parsedPlaylist st) @ [dateRange]\<rparr>\<rparr>))"

definition ExtXDateRange :: TagWithAttributesProcessor where
  "ExtXDateRange = \<lparr> tag_of = EXT_X_DATERANGE, requiredAttributes = [''ID'', ''START-DATE''],
     safeProcess = ExtXDateRange_safeProcess \<rparr>"

definition MAX_SAFE_INTEGER :: real where
  "MAX_SAFE_INTEGER = 9007199254740991"

definition ExtXPreloadHint_safeProcess :: "Env \<Rightarrow> attributes \<Rightarrow> Parser \<Rightarrow> error + Parser" where
  "ExtXPreloadHint_safeProcess env attrs st =
     (let hintType = attrString attrs ''TYPE'';
          u = attrString attrs ''URI'';
          (resolved, st1) = resolveUriAttribute env EXT_X_PRELOAD_HINT u
                              (baseUrl (sharedState st)) ''URI'' st;
          pStart = attr attrs ''BYTERANGE-START'';
          pLength = attr attrs ''BYTERANGE-LENGTH'';
          range =
            (if truthy pStart \<and> truthy pLength
             then (let s = attrNumber env attrs ''BYTERANGE-START'';
                       e = nsub (nadd s (attrNumber env attrs ''BYTERANGE-LENGTH'')) (Num 1)
                   in Obj [(''start'', Number s), (''end'', Number e)])
             else if truthy pStart \<and> \<not> truthy pLength
             then Obj [(''start'', Number (attrNumber env attrs ''BYTERANGE-START'')),
                       (''end'', Number (Num MAX_SAFE_INTEGER))]
             else if \<not> truthy pStart \<and> truthy pLength
             then Obj [(''start'', Number (Num 0)),
                       (''end'', Number (nsub (attrNumber env attrs ''BYTERANGE-LENGTH'') (Num 1)))]
             else Undefined);
          preloadHint = Obj [(''uri'', Str u), (''resolvedUri'', Str resolved),
                             (''byteRange'', range)];
          playlist = parsedPlaylist st1;
          playlist1 = (if hintType = ''PART'' then playlist\<lparr>preloadHintPart := preloadHint\<rparr>
                       else playlist);
          playlist2 = (if hintType = ''MAP'' then playlist1\<lparr>preloadHintMap := preloadHint\<rparr>
                       else playlist1)
      in Inr (st1\<lparr>parsedPlaylist := playlist2\<rparr>))"

definition ExtXPreloadHint :: TagWithAttributesProcessor where
  "ExtXPreloadHint = \<lparr> tag_of = EXT_X_PRELOAD_HINT, requiredAttributes = [''TYPE'', ''URI''],
     safeProcess = ExtXPreloadHint_safeProcess \<rparr>"

definition ExtXRenditionReport_safeProcess :: "Env \<Rightarrow> attributes \<Rightarrow> Parser \<Rightarrow> error + Parser" where
  "ExtXRenditionReport_safeProcess env attrs st =
     (let u = attrString attrs ''URI'';
          (resolved, st1) = resolveUriAttribute env EXT_X_RENDITION_REPORT u
                              (baseUrl (sharedState st)) ''URI'' st;
          renditionReport = Obj
            [(''uri'', Str u), (''resolvedUri'', Str resolved),
             (''lastMsn'', numberOrUndefined env attrs ''LAST-MSN''),
             (''lastPart'', numberOrUndefined env attrs ''LAST-PART'')]
      in Inr (st1\<lparr>parsedPlaylist := (parsedPlaylist st1)
           \<lparr>renditionReports := renditionReports (parsedPlaylist st1) @ [renditionReport]\<rparr>\<rparr>))"

definition ExtXRenditionReport :: TagWithAttributesProcessor where
  "ExtXRenditionReport = \<lparr> tag_of = EXT_X_RENDITION_REPORT, requiredAttributes = [''URI''],
     safeProcess = ExtXRenditionReport_safeProcess \<rparr>"

definition ExtXSessionData_safeProcess :: "Env \<Rightarrow> attributes \<Rightarrow> Parser \<Rightarrow> error + Parser" where
  "ExtXSessionData_safeProcess env attrs st =
     (let (resolved, st1) = resolveOptionalUri env EXT_X_SESSION_DATA attrs ''URI'' st;
          data = Obj
            [(''uri'', attr attrs ''URI''), (''resolvedUri'', resolved),
             (''dataId'', attr attrs ''DATA-ID''), (''value'', attr attrs ''VALUE''),
             (''format'', attr attrs ''FORMAT''), (''language'', attr attrs ''LANGUAGE'')]
      in Inr (st1\<lparr>parsedPlaylist := (parsedPlaylist st1)
           \<lparr>sessionData := obj_set (attrString attrs ''DATA-ID'') data
                             (sessionData (parsedPlaylist st1))\<rparr>\<rparr>))"

definition ExtXSessionData :: TagWithAttributesProcessor where
  "ExtXSessionData = \<lparr> tag_of = EXT_X_SESSION_DATA, requiredAttributes = [''DATA-ID''],
     safeProcess = ExtXSessionData_safeProcess \<rparr>"

definition ExtXSessionKey_safeProcess :: "Env \<Rightarrow> attributes \<Rightarrow> Parser \<Rightarrow> error + Parser" where
  "ExtXSessionKey_safeProcess env attrs st =
     (let (key, st1) = parseEncryptionTag env EXT_X_SESSION_KEY attrs st
      in Inr (st1\<lparr>parsedPlaylist := (parsedPlaylist st1)\<lparr>sessionKey := key\<rparr>\<rparr>))"

definition ExtXSessionKey :: TagWithAttributesProcessor where
  "ExtXSessionKey = \<lparr> tag_of = EXT_X_SESSION_KEY, requiredAttributes = [''METHOD''],
     safeProcess = ExtXSessionKey_safeProcess \<rparr>"

definition ExtXContentSteering_safeProcess :: "Env \<Rightarrow> attributes \<Rightarrow> Parser \<Rightarrow> error + Parser" where
  "ExtXContentSteering_safeProcess env attrs st =
     (let serverUri = attrString attrs ''SERVER-URI'';
          (resolvedServerUri, st1) = resolveUriAttribute env EXT_X_CONTENT_STEERING serverUri
                                       (baseUrl (sharedState st)) ''SERVER-URI'' st
      in Inr (st1\<lparr>parsedPlaylist := (parsedPlaylist st1)\<lparr>contentSteering := Obj
           [(''serverUri'', Str serverUri), (''resolvedServerUri'', Str resolvedServerUri),
            (''pathwayId'', attr attrs ''PATHWAY-ID'')]\<rparr>\<rparr>))"

definition ExtXContentSteering :: TagWithAttributesProcessor where
  "ExtXContentSteering = \<lparr> tag_of = EXT_X_CONTENT_STEERING,
     requiredAttributes = [''SERVER-URI''],
     safeProcess = ExtXContentSteering_safeProcess \<rparr>"

subsection \<open>\<^verbatim>\<open>ExtXDefine\<close>\<close>

definition lookupValue :: "(string \<times> jsval) list \<Rightarrow> string \<Rightarrow> jsval" where
  "lookupValue m k = (case obj_get m k of Some v \<Rightarrow> v | None \<Rightarrow> Undefined)"

definition getValueForImportDefine :: "string \<Rightarrow> SharedState \<Rightarrow> jsval" where
  "getValueForImportDefine importName shared =
     (case baseDefine shared of
        None \<Rightarrow> Null
      | Some bd \<Rightarrow>
          if truthy (lookupValue (defineName bd) importName)
          then lookupValue (defineName bd) importName
          else if truthy (lookupValue (defineImport bd) importName)
          then lookupValue (defineImport bd) importName
          else if truthy (lookupValue (defineQueryParam bd) importName)
          then lookupValue (defineQueryParam bd) importName
          else Null)"

definition getValueForQueryParamDefine :: "Env \<Rightarrow> string \<Rightarrow> SharedState \<Rightarrow> jsval" where
  "getValueForQueryParamDefine env queryParam shared =
     (if baseUrl shared = [] then Null
      else (case urlSearchParam env (baseUrl shared) queryParam of
              Some v \<Rightarrow> Str v
            | None \<Rightarrow> Null))"

definition setHasVariables :: "Parser \<Rightarrow> Parser" where
  "setHasVariables st = st\<lparr>sharedState := (sharedState st)\<lparr>hasVariablesForSubstitution := True\<rparr>\<rparr>"

definition defineByName :: "attributes \<Rightarrow> Parser \<Rightarrow> Parser" where
  "defineByName attrs st =
     (if truthy (attr attrs ''NAME'')
      then (let playlist = parsedPlaylist st; d = playlistDefine playlist
            in setHasVariables (st\<lparr>parsedPlaylist := playlist\<lparr>playlistDefine :=
                 d\<lparr>defineName := obj_set (attrString attrs ''NAME'') (attr attrs ''VALUE'')
                                     (defineName d)\<rparr>\<rparr>\<rparr>))
      else st)"

definition defineByImport :: "attributes \<Rightarrow> Parser \<Rightarrow> Parser" where
  "defineByImport attrs st =
     (if truthy (attr attrs ''IMPORT'')
      then (let playlist = parsedPlaylist st; d = playlistDefine playlist;
                v = getValueForImportDefine (attrString attrs ''IMPORT'') (sharedState st);
                st1 = st\<lparr>parsedPlaylist := playlist\<lparr>playlistDefine :=
                        d\<lparr>defineImport := obj_set (attrString attrs ''IMPORT'') v
                                             (defineImport d)\<rparr>\<rparr>\<rparr>
            in if v \<noteq> Null then setHasVariables st1 else st1)
      else st)"

definition defineByQueryParam :: "Env \<Rightarrow> attributes \<Rightarrow> Parser \<Rightarrow> Parser" where
  "defineByQueryParam env attrs st =
     (if truthy (attr attrs ''QUERYPARAM'')
      then (let playlist = parsedPlaylist st; d = playlistDefine playlist;
                v = getValueForQueryParamDefine env (attrString attrs ''QUERYPARAM'')
                      (sharedState st);
                st1 = st\<lparr>parsedPlaylist := playlist\<lparr>playlistDefine :=
                        d\<lparr>defineQueryParam := obj_set (attrString attrs ''QUERYPARAM'') v
                                                 (defineQueryParam d)\<rparr>\<rparr>\<rparr>
            in if v \<noteq> Null then setHasVariables st1 else st1)
      else st)"

definition ExtXDefine_safeProcess :: "Env \<Rightarrow> attributes \<Rightarrow> Parser \<Rightarrow> error + Parser" where
  "ExtXDefine_safeProcess env attrs st =
     Inr (defineByQueryParam env attrs (defineByImport attrs (defineByName attrs st)))"

definition ExtXDefine :: TagWithAttributesProcessor where
  "ExtXDefine = \<lparr> tag_of = EXT_X_DEFINE, requiredAttributes = [],
     safeProcess = ExtXDefine_safeProcess \<rparr>"


section \<open>Empty-tag and value-tag processors\<close>

text \<open>
  \<^verbatim>\<open>tags/emptyTagProcessors.ts\<close> and \<^verbatim>\<open>tags/tagWithValueProcessors.ts\<close> are not
  among the sources. Each processor of this section does what section 4.3.3 of the
  specification says of its tag; a value that does not parse is the warning of section 7,
  item 5, and the tag is skipped.
\<close>

text \<open>Modelled from the spec: the tag names of \<^verbatim>\<open>consts/tags.ts\<close> for the empty tags and
  the value tags, as section 6.1 lists them.\<close>

definition EXTM3U :: string where "EXTM3U = ''EXTM3U''"
definition EXT_X_INDEPENDENT_SEGMENTS :: string where
  "EXT_X_INDEPENDENT_SEGMENTS = ''EXT-X-INDEPENDENT-SEGMENTS''"
definition EXT_X_ENDLIST :: string where "EXT_X_ENDLIST = ''EXT-X-ENDLIST''"
definition EXT_X_I_FRAMES_ONLY :: string where "EXT_X_I_FRAMES_ONLY = ''EXT-X-I-FRAMES-ONLY''"
definition EXT_X_DISCONTINUITY :: string where "EXT_X_DISCONTINUITY = ''EXT-X-DISCONTINUITY''"
definition EXT_X_GAP :: string where "EXT_X_GAP = ''EXT-X-GAP''"
definition EXT_X_VERSION :: string where "EXT_X_VERSION = ''EXT-X-VERSION''"
definition EXT_X_TARGETDURATION :: string where "EXT_X_TARGETDURATION = ''EXT-X-TARGETDURATION''"
definition EXT_X_MEDIA_SEQUENCE :: string where "EXT_X_MEDIA_SEQUENCE = ''EXT-X-MEDIA-SEQUENCE''"
definition EXT_X_DISCONTINUITY_SEQUENCE :: string where
  "EXT_X_DISCONTINUITY_SEQUENCE = ''EXT-X-DISCONTINUITY-SEQUENCE''"
definition EXT_X_PLAYLIST_TYPE :: string where "EXT_X_PLAYLIST_TYPE = ''EXT-X-PLAYLIST-TYPE''"
definition EXTINF :: string where "EXTINF = ''EXTINF''"
definition EXT_X_BYTERANGE :: string where "EXT_X_BYTERANGE = ''EXT-X-BYTERANGE''"
definition EXT_X_BITRATE :: string where "EXT_X_BITRATE = ''EXT-X-BITRATE''"
definition EXT_X_PROGRAM_DATE_TIME :: string where
  "EXT_X_PROGRAM_DATE_TIME = ''EXT-X-PROGRAM-DATE-TIME''"

text \<open>Modelled from the spec: the interfaces of the two kinds of processors, as the calls
  in \<^verbatim>\<open>tagInfoCallback\<close> use them (\<^verbatim>\<open>process(playlist, sharedState)\<close> and
  \<^verbatim>\<open>process(tagValue, playlist, sharedState)\<close>), and an update of the segment under
  construction.\<close>

type_synonym EmptyTagProcessor = "Parser \<Rightarrow> Parser"
type_synonym TagWithValueProcessor = "Env \<Rightarrow> string \<Rightarrow> Parser \<Rightarrow> Parser"

definition updateCurrentSegment :: "(Segment \<Rightarrow> Segment) \<Rightarrow> Parser \<Rightarrow> Parser" where
  "updateCurrentSegment f st =
     st\<lparr>sharedState := (sharedState st)\<lparr>currentSegment := f (currentSegment (sharedState st))\<rparr>\<rparr>"

text \<open>Modelled from the spec: the six empty-tag processors. EXTM3U,
  EXT-X-INDEPENDENT-SEGMENTS, EXT-X-ENDLIST and EXT-X-I-FRAMES-ONLY set their flag of the
  playlist (section 3.1); EXT-X-DISCONTINUITY and EXT-X-GAP set theirs of the segment under
  construction (section 4.3.3).\<close>

definition ExtM3u :: EmptyTagProcessor where
  "ExtM3u st = st\<lparr>parsedPlaylist := (parsedPlaylist st)\<lparr>m3u := True\<rparr>\<rparr>"

definition ExtXIndependentSegments :: EmptyTagProcessor where
  "ExtXIndependentSegments st =
     st\<lparr>parsedPlaylist := (parsedPlaylist st)\<lparr>independentSegments := True\<rparr>\<rparr>"

definition ExtXEndList :: EmptyTagProcessor where
  "ExtXEndList st = st\<lparr>parsedPlaylist := (parsedPlaylist st)\<lparr>endList := True\<rparr>\<rparr>"

definition ExtXIframesOnly :: EmptyTagProcessor where
  "ExtXIframesOnly st = st\<lparr>parsedPlaylist := (parsedPlaylist st)\<lparr>iFramesOnly := True\<rparr>\<rparr>"

definition ExtXDiscontinuity :: EmptyTagProcessor where
  "ExtXDiscontinuity st = updateCurrentSegment (\<lambda>s. s\<lparr>isDiscontinuity := True\<rparr>) st"

definition ExtXGap :: EmptyTagProcessor where
  "ExtXGap st = updateCurrentSegment (\<lambda>s. s\<lparr>isGap := True\<rparr>) st"

text \<open>Modelled from the spec: a value tag whose value is a number. Section 4.3.3 has
  EXT-X-VERSION, EXT-X-TARGETDURATION, EXT-X-MEDIA-SEQUENCE and
  EXT-X-DISCONTINUITY-SEQUENCE "parse integer, assign to playlist field", and
  EXT-X-BITRATE set \<^verbatim>\<open>sharedState.currentBitrate\<close>; a value that is not a number is
  warned about and skipped.\<close>

definition numberValue ::
    "string \<Rightarrow> (real \<Rightarrow> Parser \<Rightarrow> Parser) \<Rightarrow> Env \<Rightarrow> string \<Rightarrow> Parser \<Rightarrow> Parser" where
  "numberValue t assign env tagValue st =
     (case toNumber env tagValue of
        NaN \<Rightarrow> warn (unableToParseValueWarn t) st
      | Num x \<Rightarrow> assign x st)"

definition ExtXVersion :: TagWithValueProcessor where
  "ExtXVersion = numberValue EXT_X_VERSION
     (\<lambda>x st. st\<lparr>parsedPlaylist := (parsedPlaylist st)\<lparr>version := Some x\<rparr>\<rparr>)"

definition ExtXTargetDuration :: TagWithValueProcessor where
  "ExtXTargetDuration = numberValue EXT_X_TARGETDURATION
     (\<lambda>x st. st\<lparr>parsedPlaylist := (parsedPlaylist st)\<lparr>targetDuration := Some x\<rparr>\<rparr>)"

definition ExtXMediaSequence :: TagWithValueProcessor where
  "ExtXMediaSequence = numberValue EXT_X_MEDIA_SEQUENCE
     (\<lambda>x st. st\<lparr>parsedPlaylist := (parsedPlaylist st)\<lparr>playlistMediaSequence := x\<rparr>\<rparr>)"

definition ExtXDiscontinuitySequence :: TagWithValueProcessor where
  "ExtXDiscontinuitySequence = numberValue EXT_X_DISCONTINUITY_SEQUENCE
     (\<lambda>x st. st\<lparr>parsedPlaylist := (parsedPlaylist st)\<lparr>playlistDiscontinuitySequence := x\<rparr>\<rparr>)"

definition ExtXBitrate :: TagWithValueProcessor where
  "ExtXBitrate = numberValue EXT_X_BITRATE
     (\<lambda>x st. st\<lparr>sharedState := (sharedState st)\<lparr>currentBitrate := Some x\<rparr>\<rparr>)"

text \<open>Modelled from the spec: EXT-X-PLAYLIST-TYPE is one of VOD and EVENT; any other
  value gives the unsupported-enum warning.\<close>

definition ExtXPlaylistType :: TagWithValueProcessor where
  "ExtXPlaylistType env tagValue st =
     (if tagValue = ''VOD'' \<or> tagValue = ''EVENT''
      then st\<lparr>parsedPlaylist := (parsedPlaylist st)\<lparr>playlistType := Some tagValue\<rparr>\<rparr>
      else warn (unsupportedEnumValue EXT_X_PLAYLIST_TYPE tagValue [''VOD'', ''EVENT'']) st)"

text \<open>Modelled from the spec: EXTINF is \<^verbatim>\<open>duration[,title]\<close>; the duration is
  \<^verbatim>\<open>parseFloat\<close> of the text before the first comma, the title is the text after
  it.\<close>

definition ExtInf :: TagWithValueProcessor where
  "ExtInf env tagValue st =
     (let token = takeWhile (\<lambda>c. c \<noteq> CHR '','') tagValue;
          remainder = drop 1 (dropWhile (\<lambda>c. c \<noteq> CHR '','') tagValue)
      in case parseFloat env token of
           NaN \<Rightarrow> warn (unableToParseValueWarn EXTINF) st
         | Num d \<Rightarrow> updateCurrentSegment (\<lambda>s. s\<lparr>duration := d, title := remainder\<rparr>) st)"

text \<open>Modelled from the spec: EXT-X-BYTERANGE is \<^verbatim>\<open>length[@offset]\<close>. Without an
  offset the range starts after the previous segment's; the specification does not say
  what happens when there is no previous range, and the model skips the tag with the
  warning of an unparsable value, as the sibling \<^verbatim>\<open>ExtXPart\<close> of the sources does with
  a warning of its own.\<close>

definition ExtXByteRange :: TagWithValueProcessor where
  "ExtXByteRange env tagValue st =
     (let values = js_split (CHR ''@'') tagValue;
          len = (case values of l # _ \<Rightarrow> toNumber env l | [] \<Rightarrow> NaN);
          offset = (case values of _ # x # _ \<Rightarrow> toNumber env x | _ \<Rightarrow> NaN);
          setRange = (\<lambda>off l. updateCurrentSegment (\<lambda>s. s\<lparr>byteRange :=
                        Some \<lparr> range_start = off, range_end = off + l - 1 \<rparr>\<rparr>) st);
          previousRange = (case segments (parsedPlaylist st) of
                             [] \<Rightarrow> None
                           | x # xs \<Rightarrow> byteRange (last (x # xs)))
      in case len of
           NaN \<Rightarrow> warn (unableToParseValueWarn EXT_X_BYTERANGE) st
         | Num l \<Rightarrow>
             (case offset of
                Num off \<Rightarrow> setRange off l
              | NaN \<Rightarrow>
                  (case previousRange of
                     None \<Rightarrow> warn (unableToParseValueWarn EXT_X_BYTERANGE) st
                   | Some r \<Rightarrow> setRange (range_end r + 1) l)))"

text \<open>Modelled from the spec: EXT-X-PROGRAM-DATE-TIME is parsed to milliseconds and
  starts the segment under construction.\<close>

definition ExtXProgramDateTime :: TagWithValueProcessor where
  "ExtXProgramDateTime env tagValue st =
     (case dateParse env tagValue of
        NaN \<Rightarrow> warn (unableToParseValueWarn EXT_X_PROGRAM_DATE_TIME) st
      | Num t \<Rightarrow> updateCurrentSegment (\<lambda>s. s\<lparr>programDateTimeStart := Some t\<rparr>) st)"

section \<open>The parser (\<^verbatim>\<open>parse.ts\<close>)\<close>

subsection \<open>The three registries the constructor builds\<close>

definition emptyTagMap :: "(string \<times> EmptyTagProcessor) list" where
  "emptyTagMap =
     [(EXTM3U, ExtM3u),
      (EXT_X_INDEPENDENT_SEGMENTS, ExtXIndependentSegments),
      (EXT_X_ENDLIST, ExtXEndList),
      (EXT_X_I_FRAMES_ONLY, ExtXIframesOnly),
      (EXT_X_DISCONTINUITY, ExtXDiscontinuity),
      (EXT_X_GAP, ExtXGap)]"

definition tagValueMap :: "(string \<times> TagWithValueProcessor) list" where
  "tagValueMap =
     [(EXT_X_VERSION, ExtXVersion),
      (EXT_X_TARGETDURATION, ExtXTargetDuration),
      (EXT_X_MEDIA_SEQUENCE, ExtXMediaSequence),
      (EXT_X_DISCONTINUITY_SEQUENCE, ExtXDiscontinuitySequence),
      (EXT_X_PLAYLIST_TYPE, ExtXPlaylistType),
      (EXTINF, ExtInf),
      (EXT_X_BYTERANGE, ExtXByteRange),
      (EXT_X_BITRATE, ExtXBitrate),
      (EXT_X_PROGRAM_DATE_TIME, ExtXProgramDateTime)]"

definition tagAttributesMap :: "(string \<times> TagWithAttributesProcessor) list" where
  "tagAttributesMap =
     [(EXT_X_START, ExtXStart),
      (EXT_X_PART_INF, ExtXPartInf),
      (EXT_X_SERVER_CONTROL, ExtXServerControl),
      (EXT_X_KEY, ExtXKey),
      (EXT_X_MAP, ExtXMap),
      (EXT_X_PART, ExtXPart),
      (EXT_X_MEDIA, ExtXMedia),
      (EXT_X_STREAM_INF, ExtXStreamInf),
      (EXT_X_SKIP, ExtXSkip),
      (EXT_X_I_FRAME_STREAM_INF, ExtXIFrameStreamInf),
      (EXT_X_DATERANGE, ExtXDateRange),
      (EXT_X_PRELOAD_HINT, ExtXPreloadHint),
      (EXT_X_RENDITION_REPORT, ExtXRenditionReport),
      (EXT_X_SESSION_DATA, ExtXSessionData),
      (EXT_X_SESSION_KEY, ExtXSessionKey),
      (EXT_X_CONTENT_STEERING, ExtXContentSteering),
      (EXT_X_DEFINE, ExtXDefine)]"


subsection \<open>\<^verbatim>\<open>tagInfoCallback\<close>\<close>

text \<open>
  \<^verbatim>\<open>this.ignoreTags.has\<close> is set membership. \<^verbatim>\<open>tagKey in this.emptyTagMap\<close> holds
  for the keys the constructor wrote (\<open>map_of\<close>) and for the property names the map
  inherits; for an inherited name \<^verbatim>\<open>this.emptyTagMap[tagKey]\<close> has no
  \<^verbatim>\<open>process\<close> method, and calling it throws. The two maps after it inherit the same
  names, so their checks see written keys only. The map of custom tags is the caller's
  object and is modelled as a lookup. The custom branch receives the tag value and the
  attributes as the scanner gave them: the two transforms are applied inside the branches
  before it only.
\<close>

definition runCustomTagProcessor ::
    "customTagProcessor \<Rightarrow> string \<Rightarrow> string option \<Rightarrow> attributes \<Rightarrow> Parser \<Rightarrow> Parser" where
  "runCustomTagProcessor customTagProcessor tagKey tagValue tagAttributes st =
     (let (c, shared) = customTagProcessor tagKey tagValue tagAttributes
                          (custom (parsedPlaylist st)) (sharedState st)
      in st\<lparr>parsedPlaylist := (parsedPlaylist st)\<lparr>custom := c\<rparr>, sharedState := shared\<rparr>)"

definition tagInfoCallback ::
    "Env \<Rightarrow> ParserOptions \<Rightarrow> string \<Rightarrow> string option \<Rightarrow> attributes \<Rightarrow> Parser \<Rightarrow> error + Parser" where
  "tagInfoCallback env opts tagKey tagValue tagAttributes st =
     (if tagKey \<in> ignoreTags opts then Inr (warn (ignoreTagWarn tagKey) st)
      else case map_of emptyTagMap tagKey of
        Some emptyTagProcessor \<Rightarrow> Inr (emptyTagProcessor st)
      | None \<Rightarrow>
     (if tagKey \<in> set objectPrototypeKeys then Inl TypeError
      else case map_of tagValueMap tagKey of
        Some tagWithValueProcessor \<Rightarrow>
          (case transformTagValue opts tagKey tagValue of
             None \<Rightarrow> Inr (warn (missingTagValueWarn tagKey) st)
           | Some v \<Rightarrow> Inr (tagWithValueProcessor env v st))
      | None \<Rightarrow>
     (case map_of tagAttributesMap tagKey of
        Some tagWithAttributesProcessor \<Rightarrow>
          process env tagWithAttributesProcessor
            (transformTagAttributes opts tagKey tagAttributes) st
      | None \<Rightarrow>
     (case customTagMap opts tagKey of
        Some customTagProcessor \<Rightarrow>
          Inr (runCustomTagProcessor customTagProcessor tagKey tagValue tagAttributes st)
      | None \<Rightarrow> Inr (warn (unsupportedTagWarn tagKey) st)))))"

subsection \<open>\<^verbatim>\<open>uriInfoCallback\<close> and the two assemblers\<close>

definition handleCurrentVariant :: "string \<Rightarrow> string \<Rightarrow> Parser \<Rightarrow> Parser" where
  "handleCurrentVariant u resolved st =
     (let variant = (currentVariant (sharedState st))
                      \<lparr>variantUri := u, variantResolvedUri := resolved\<rparr>
      in st\<lparr>parsedPlaylist := (parsedPlaylist st)
              \<lparr>variantStreams := variantStreams (parsedPlaylist st) @ [variant]\<rparr>,
            sharedState := (sharedState st)\<lparr>currentVariant := createDefaultVariantStream\<rparr>\<rparr>)"

text \<open>Truthiness of a field that holds a number or \<^verbatim>\<open>undefined\<close>: unset and 0 are
  both false.\<close>

definition truthyNumber :: "real option \<Rightarrow> bool" where
  "truthyNumber v = (case v of None \<Rightarrow> False | Some x \<Rightarrow> x \<noteq> 0)"

text \<open>\<^verbatim>\<open>segments[segments.length - 1]\<close>: \<^verbatim>\<open>undefined\<close> on the empty list.\<close>

definition previousSegmentOf :: "Segment list \<Rightarrow> Segment option" where
  "previousSegmentOf segs = (if segs = [] then None else Some (last segs))"

text \<open>The body of \<^verbatim>\<open>handleCurrentSegment\<close> between the duration warning and the
  push: the assignments to \<^verbatim>\<open>this.sharedState.currentSegment\<close>, in the order of the
  source, one definition for each group of statements.\<close>

definition startSegment :: "SharedState \<Rightarrow> string \<Rightarrow> string \<Rightarrow> Segment" where
  "startSegment shared u resolved =
     (currentSegment shared)
       \<lparr>encryption := currentEncryption shared, initMap := currentMap shared,
        uri := u, resolvedUri := resolved, startTime := baseTime shared\<rparr>"

definition linkToPrevious :: "Segment option \<Rightarrow> Segment \<Rightarrow> Segment" where
  "linkToPrevious previousSegment s =
     (case previousSegment of
        Some prev \<Rightarrow>
          s\<lparr>mediaSequence := mediaSequence prev + 1,
            startTime := endTime prev,
            discontinuitySequence :=
              (if isDiscontinuity s then discontinuitySequence prev + 1
               else discontinuitySequence prev)\<rparr>
      | None \<Rightarrow> s)"

definition setEndTime :: "Segment \<Rightarrow> Segment" where
  "setEndTime s = s\<lparr>endTime := startTime s + duration s\<rparr>"

definition applyBitrate :: "SharedState \<Rightarrow> Segment \<Rightarrow> Segment" where
  "applyBitrate shared s =
     (if truthyNumber (currentBitrate shared) \<and> byteRange s = None
      then s\<lparr>bitrate := currentBitrate shared\<rparr> else s)"

definition extrapolateProgramDateTime :: "Segment option \<Rightarrow> Segment \<Rightarrow> Segment" where
  "extrapolateProgramDateTime previousSegment s =
     (case previousSegment of
        Some prev \<Rightarrow>
          (case programDateTimeStart prev of
             Some p \<Rightarrow>
               if \<not> truthyNumber (programDateTimeStart s) \<and> p \<noteq> 0
               then s\<lparr>programDateTimeStart := Some (p + duration prev * 1000)\<rparr>
               else s
           | None \<Rightarrow> s)
      | None \<Rightarrow> s)"

definition setProgramDateTimeEnd :: "Segment \<Rightarrow> Segment" where
  "setProgramDateTimeEnd s =
     (case programDateTimeStart s of
        Some p \<Rightarrow>
          if p \<noteq> 0 then s\<lparr>programDateTimeEnd := Some (p + duration s * 1000)\<rparr> else s
      | None \<Rightarrow> s)"

definition finalizeSegment :: "SharedState \<Rightarrow> Segment option \<Rightarrow> string \<Rightarrow> string \<Rightarrow> Segment" where
  "finalizeSegment shared previousSegment u resolved =
     setProgramDateTimeEnd
       (extrapolateProgramDateTime previousSegment
          (applyBitrate shared
             (setEndTime
                (linkToPrevious previousSegment
                   (startSegment shared u resolved)))))"

definition handleCurrentSegment :: "Env \<Rightarrow> string \<Rightarrow> string \<Rightarrow> Parser \<Rightarrow> Parser" where
  "handleCurrentSegment env u resolved st =
     (let playlist = parsedPlaylist st;
          shared = sharedState st;
          st1 = (case targetDuration playlist of
                   Some t \<Rightarrow>
                     if duration (currentSegment shared) > t
                     then warn (segmentDurationExceededTargetDuration env u
                                  (duration (currentSegment shared)) t) st
                     else st
                 | None \<Rightarrow> st);
          previousSegment = previousSegmentOf (segments playlist);
          seg = finalizeSegment shared previousSegment u resolved
      in st1\<lparr>parsedPlaylist := playlist\<lparr>segments := segments playlist @ [seg]\<rparr>,
             sharedState := shared\<lparr>currentSegment := createDefaultSegment\<rparr>\<rparr>)"

definition uriInfoCallback :: "Env \<Rightarrow> string \<Rightarrow> Parser \<Rightarrow> Parser" where
  "uriInfoCallback env u st =
     (let (u1, st1) =
            (if hasVariablesForSubstitution (sharedState st)
             then (let (v, missing) =
                         substituteVariables env u (playlistDefine (parsedPlaylist st))
                   in (v, warnAll (map (missingRequiredVariableForUriSubstitutionWarn u)
                                     missing) st))
             else (u, st));
          (resolved, st2) =
            (case resolveUri env u1 (baseUrl (sharedState st1)) of
               None \<Rightarrow> (u1, warn (failedToResolveUri u1 (baseUrl (sharedState st1))) st1)
             | Some r \<Rightarrow> (r, st1))
      in if isMultivariantPlaylist (sharedState st2)
         then handleCurrentVariant u1 resolved st2
         else handleCurrentSegment env u1 resolved st2)"

subsection \<open>\<^verbatim>\<open>clean\<close> and \<^verbatim>\<open>gatherParseOptions\<close>\<close>

definition clean :: "Parser \<Rightarrow> ParsedPlaylist \<times> Parser" where
  "clean st =
     (parsedPlaylist st,
      st\<lparr>parsedPlaylist := createDefaultParsedPlaylist,
         sharedState := createDefaultSharedState\<rparr>)"

definition gatherParseOptions :: "ParseOptions \<Rightarrow> Parser \<Rightarrow> Parser" where
  "gatherParseOptions options st =
     st\<lparr>sharedState := (sharedState st)
          \<lparr>baseDefine := baseDefineOption options,
           baseUrl := baseUrlOption options,
           baseTime := (case baseTimeOption options of
                          Some t \<Rightarrow> if t \<noteq> 0 then t else 0
                        | None \<Rightarrow> 0)\<rparr>\<rparr>"


subsection \<open>The scanner\<close>

text \<open>
  \<^verbatim>\<open>stateMachine.ts\<close> is not among the sources, so \<^verbatim>\<open>createStateMachine\<close> is a
  parameter of the model: a state machine is its initial state and its transition, which
  reads one character and tells which callbacks it calls, in call order. The two
  callbacks return nothing, so the scanner's next state does not depend on what they do.
\<close>

datatype event = TagInfo string "string option" attributes | UriInfo string

record 's StateMachine =
  initialState :: 's
  transition :: "'s \<Rightarrow> char \<Rightarrow> 's \<times> event list"

definition runEvent :: "Env \<Rightarrow> ParserOptions \<Rightarrow> event \<Rightarrow> Parser \<Rightarrow> error + Parser" where
  "runEvent env opts ev st =
     (case ev of
        TagInfo tagKey tagValue tagAttributes \<Rightarrow>
          tagInfoCallback env opts tagKey tagValue tagAttributes st
      | UriInfo u \<Rightarrow> Inr (uriInfoCallback env u st))"

fun runEvents :: "Env \<Rightarrow> ParserOptions \<Rightarrow> event list \<Rightarrow> Parser \<Rightarrow> error + Parser" where
  "runEvents env opts [] st = Inr st"
| "runEvents env opts (ev # evs) st =
     (case runEvent env opts ev st of
        Inl e \<Rightarrow> Inl e
      | Inr st1 \<Rightarrow> runEvents env opts evs st1)"

text \<open>One call \<^verbatim>\<open>stateMachine(c)\<close>, and the loop over the characters of a string.
  An exception of a callback leaves through the scanner and the loop.\<close>

definition feedChar ::
    "Env \<Rightarrow> ParserOptions \<Rightarrow> 's StateMachine \<Rightarrow> 's \<times> Parser \<Rightarrow> char \<Rightarrow> error + 's \<times> Parser" where
  "feedChar env opts sm x c =
     (let (s1, evs) = transition sm (fst x) c
      in case runEvents env opts evs (snd x) of
           Inl e \<Rightarrow> Inl e
         | Inr st1 \<Rightarrow> Inr (s1, st1))"

fun feedString ::
    "Env \<Rightarrow> ParserOptions \<Rightarrow> 's StateMachine \<Rightarrow> string \<Rightarrow> 's \<times> Parser \<Rightarrow> error + 's \<times> Parser" where
  "feedString env opts sm [] x = Inr x"
| "feedString env opts sm (c # cs) x =
     (case feedChar env opts sm x c of
        Inl e \<Rightarrow> Inl e
      | Inr x1 \<Rightarrow> feedString env opts sm cs x1)"

definition newline :: char where
  "newline = CHR 0x0A"

definition transitionToNewLine ::
    "Env \<Rightarrow> ParserOptions \<Rightarrow> 's StateMachine \<Rightarrow> 's \<times> Parser \<Rightarrow> error + 's \<times> Parser" where
  "transitionToNewLine env opts sm x = feedChar env opts sm x newline"

subsection \<open>\<^verbatim>\<open>FullPlaylistParser\<close>\<close>

text \<open>A parse returns the playlist and leaves the parser instance in a new state, or
  throws.\<close>

definition parseFullPlaylistString ::
    "Env \<Rightarrow> ParserOptions \<Rightarrow> 's StateMachine \<Rightarrow> string \<Rightarrow> ParseOptions \<Rightarrow> Parser
       \<Rightarrow> error + ParsedPlaylist \<times> Parser" where
  "parseFullPlaylistString env opts sm playlist options st =
     (let st1 = gatherParseOptions options st
      in case feedString env opts sm playlist (initialState sm, st1) of
           Inl e \<Rightarrow> Inl e
         | Inr x \<Rightarrow>
             (case transitionToNewLine env opts sm x of
                Inl e \<Rightarrow> Inl e
              | Inr x1 \<Rightarrow> Inr (clean (snd x1))))"

text \<open>A \<^verbatim>\<open>Uint8Array\<close> is a list of numbers below 256, and
  \<^verbatim>\<open>String.fromCharCode\<close> gives the character of that code.\<close>

definition parseFullPlaylistBuffer ::
    "Env \<Rightarrow> ParserOptions \<Rightarrow> 's StateMachine \<Rightarrow> nat list \<Rightarrow> ParseOptions \<Rightarrow> Parser
       \<Rightarrow> error + ParsedPlaylist \<times> Parser" where
  "parseFullPlaylistBuffer env opts sm playlist options st =
     (let st1 = gatherParseOptions options st
      in case feedString env opts sm (map char_of playlist) (initialState sm, st1) of
           Inl e \<Rightarrow> Inl e
         | Inr x \<Rightarrow>
             (case transitionToNewLine env opts sm x of
                Inl e \<Rightarrow> Inl e
              | Inr x1 \<Rightarrow> Inr (clean (snd x1))))"

subsection \<open>\<^verbatim>\<open>ProgressiveParser\<close>\<close>

record 's ProgressiveParser =
  parser :: Parser
  stateMachine :: "'s option"

definition newProgressiveParser :: "'s ProgressiveParser" where
  "newProgressiveParser = \<lparr> parser = newParser, stateMachine = None \<rparr>"

definition pushString ::
    "Env \<Rightarrow> ParserOptions \<Rightarrow> 's StateMachine \<Rightarrow> string \<Rightarrow> ParseOptions \<Rightarrow> 's ProgressiveParser
       \<Rightarrow> error + 's ProgressiveParser" where
  "pushString env opts sm chunk options pp =
     (let st1 = gatherParseOptions options (parser pp);
          s = (case stateMachine pp of None \<Rightarrow> initialState sm | Some s0 \<Rightarrow> s0)
      in case feedString env opts sm chunk (s, st1) of
           Inl e \<Rightarrow> Inl e
         | Inr x \<Rightarrow> Inr \<lparr> parser = snd x, stateMachine = Some (fst x) \<rparr>)"

definition pushBuffer ::
    "Env \<Rightarrow> ParserOptions \<Rightarrow> 's StateMachine \<Rightarrow> nat list \<Rightarrow> ParseOptions \<Rightarrow> 's ProgressiveParser
       \<Rightarrow> error + 's ProgressiveParser" where
  "pushBuffer env opts sm chunk options pp =
     (let st1 = gatherParseOptions options (parser pp);
          s = (case stateMachine pp of None \<Rightarrow> initialState sm | Some s0 \<Rightarrow> s0)
      in case feedString env opts sm (map char_of chunk) (s, st1) of
           Inl e \<Rightarrow> Inl e
         | Inr x \<Rightarrow> Inr \<lparr> parser = snd x, stateMachine = Some (fst x) \<rparr>)"

text \<open>\<^verbatim>\<open>done()\<close>.\<close>

definition progressiveDone ::
    "Env \<Rightarrow> ParserOptions \<Rightarrow> 's StateMachine \<Rightarrow> 's ProgressiveParser
       \<Rightarrow> error + ParsedPlaylist \<times> 's ProgressiveParser" where
  "progressiveDone env opts sm pp =
     (case (case stateMachine pp of
              Some s \<Rightarrow> (case transitionToNewLine env opts sm (s, parser pp) of
                           Inl e \<Rightarrow> Inl e
                         | Inr x \<Rightarrow> Inr (snd x))
            | None \<Rightarrow> Inr (parser pp)) of
        Inl e \<Rightarrow> Inl e
      | Inr st1 \<Rightarrow>
          (let (playlist, st2) = clean st1
           in Inr (playlist, \<lparr> parser = st2, stateMachine = None \<rparr>)))"

text \<open>A caller that pushes the chunks in order, each with the same parse options, and
  then calls \<^verbatim>\<open>done()\<close>.\<close>

fun pushAll ::
    "Env \<Rightarrow> ParserOptions \<Rightarrow> 's StateMachine \<Rightarrow> ParseOptions \<Rightarrow> string list
       \<Rightarrow> 's ProgressiveParser \<Rightarrow> error + 's ProgressiveParser" where
  "pushAll env opts sm options [] pp = Inr pp"
| "pushAll env opts sm options (chunk # chunks) pp =
     (case pushString env opts sm chunk options pp of
        Inl e \<Rightarrow> Inl e
      | Inr pp1 \<Rightarrow> pushAll env opts sm options chunks pp1)"

definition progressiveParse ::
    "Env \<Rightarrow> ParserOptions \<Rightarrow> 's StateMachine \<Rightarrow> string list \<Rightarrow> ParseOptions
       \<Rightarrow> 's ProgressiveParser \<Rightarrow> error + ParsedPlaylist \<times> 's ProgressiveParser" where
  "progressiveParse env opts sm chunks options pp =
     (case pushAll env opts sm options chunks pp of
        Inl e \<Rightarrow> Inl e
      | Inr pp1 \<Rightarrow> progressiveDone env opts sm pp1)"

text \<open>What the caller of a parse gets: the playlist, or the exception.\<close>

definition returned :: "error + ParsedPlaylist \<times> 'a \<Rightarrow> error + ParsedPlaylist" where
  "returned r = (case r of Inl e \<Rightarrow> Inl e | Inr x \<Rightarrow> Inr (fst x))"

section \<open>Instances to evaluate with\<close>

text \<open>The parser options the constructor of \<^verbatim>\<open>Parser\<close> falls back to when the caller
  gives none: no custom tag, nothing ignored, both transforms the identity.\<close>

definition defaultParserOptions :: ParserOptions where
  "defaultParserOptions = \<lparr> customTagMap = (\<lambda>k. None), ignoreTags = {},
     transformTagValue = (\<lambda>tagKey tagValue. tagValue),
     transformTagAttributes = (\<lambda>tagKey tagAttributes. tagAttributes) \<rparr>"

text \<open>An environment for the examples: numbers are read from decimal digits, a URI
  resolves to the base followed by the URI unless the base is empty, and nothing is
  substituted.\<close>

fun digitsValue :: "nat \<Rightarrow> string \<Rightarrow> nat option" where
  "digitsValue acc [] = Some acc"
| "digitsValue acc (c # cs) =
     (if 48 \<le> (of_char c :: nat) \<and> (of_char c :: nat) \<le> 57
      then digitsValue (10 * acc + ((of_char c :: nat) - 48)) cs
      else None)"

definition decimal :: "string \<Rightarrow> number" where
  "decimal s = (if s = [] then NaN
                else case digitsValue 0 s of Some n \<Rightarrow> Num (real n) | None \<Rightarrow> NaN)"

definition exampleEnv :: Env where
  "exampleEnv = \<lparr> resolveUri = (\<lambda>u base. if base = [] then None else Some (base @ u)),
     substituteVariables = (\<lambda>s d. (s, [])),
     parseBoolean = (\<lambda>v dflt. if v = Str ''YES'' then True
                               else if v = Str ''NO'' then False else dflt),
     parseHex = (\<lambda>s. Str s),
     toNumber = decimal, parseFloat = decimal, dateParse = decimal,
     showNumber = (\<lambda>x. ''x''),
     urlSearchParam = (\<lambda>base q. None) \<rparr>"

definition exampleParseOptions :: ParseOptions where
  "exampleParseOptions = \<lparr> baseUrlOption = ''http://h/'', baseDefineOption = None,
     baseTimeOption = None \<rparr>"

text \<open>
  Modelled from the spec: \<^verbatim>\<open>stateMachine.ts\<close> is not among the sources. A scanner
  as section 4.1 of the specification allows it: the line is accumulated, and at the
  newline it is classified. Whitespace at the start of a line is skipped; a line that
  starts with \<^verbatim>\<open>#EXT\<close> is a tag, any other line that starts with \<^verbatim>\<open>#\<close> is a comment,
  and any other line is a URI. The body of a tag after the colon is an attribute list
  when an unquoted \<^verbatim>\<open>=\<close> comes before the first unquoted comma, and a bare value
  otherwise (section 4.2).
\<close>

fun isAttributeList :: "bool \<Rightarrow> string \<Rightarrow> bool" where
  "isAttributeList quoted [] = False"
| "isAttributeList quoted (c # cs) =
     (if c = CHR 0x22 then isAttributeList (\<not> quoted) cs
      else if \<not> quoted \<and> c = CHR ''='' then True
      else if \<not> quoted \<and> c = CHR '','' then False
      else isAttributeList quoted cs)"

definition unquote :: "string \<Rightarrow> string" where
  "unquote v =
     (if 2 \<le> length v \<and> hd v = CHR 0x22 \<and> last v = CHR 0x22 then butlast (tl v) else v)"

fun lexAttributes :: "bool \<Rightarrow> bool \<Rightarrow> string \<Rightarrow> string \<Rightarrow> string \<Rightarrow> attributes \<Rightarrow> attributes" where
  "lexAttributes quoted inValue keyBuf valBuf [] acc =
     (if keyBuf = [] \<and> valBuf = [] then acc else obj_set keyBuf (unquote valBuf) acc)"
| "lexAttributes quoted inValue keyBuf valBuf (c # cs) acc =
     (if c = CHR 0x22
      then (if inValue then lexAttributes (\<not> quoted) inValue keyBuf (valBuf @ [c]) cs acc
            else lexAttributes (\<not> quoted) inValue (keyBuf @ [c]) valBuf cs acc)
      else if c = CHR ''='' \<and> \<not> quoted \<and> \<not> inValue
      then lexAttributes quoted True keyBuf valBuf cs acc
      else if c = CHR '','' \<and> \<not> quoted \<and> inValue
      then lexAttributes False False [] [] cs (obj_set keyBuf (unquote valBuf) acc)
      else if inValue then lexAttributes quoted inValue keyBuf (valBuf @ [c]) cs acc
      else lexAttributes quoted inValue (keyBuf @ [c]) valBuf cs acc)"

definition tagEvent :: "string \<Rightarrow> event" where
  "tagEvent line =
     (let tagKey = takeWhile (\<lambda>c. c \<noteq> CHR '':'') line;
          body = drop 1 (dropWhile (\<lambda>c. c \<noteq> CHR '':'') line)
      in if CHR '':'' \<notin> set line then TagInfo tagKey None []
         else if isAttributeList False body
         then TagInfo tagKey None (lexAttributes False False [] [] body [])
         else TagInfo tagKey (Some body) [])"

definition lineEvents :: "string \<Rightarrow> event list" where
  "lineEvents line =
     (case dropWhile is_space line of
        [] \<Rightarrow> []
      | c # rest \<Rightarrow>
          if c = CHR ''#''
          then (if startsWith rest ''EXT'' then [tagEvent rest] else [])
          else [UriInfo (js_trim (c # rest))])"

definition lineScanner :: "string StateMachine" where
  "lineScanner = \<lparr> initialState = [],
     transition = (\<lambda>buffer c. if c = newline then ([], lineEvents buffer)
                               else (buffer @ [c], [])) \<rparr>"

text \<open>Parser options with an ignored tag and a custom tag whose processor records the
  tag in \<^verbatim>\<open>playlist.custom\<close>.\<close>

definition recordingTagProcessor :: customTagProcessor where
  "recordingTagProcessor tagKey tagValue tagAttributes c shared =
     (obj_set tagKey (Str ''seen'') c, shared)"

definition exampleCustomOptions :: ParserOptions where
  "exampleCustomOptions = \<lparr> customTagMap =
       (\<lambda>k. if k = ''EXT-X-CUSTOM'' then Some recordingTagProcessor else None),
     ignoreTags = {''EXTM3U''},
     transformTagValue = (\<lambda>tagKey tagValue. tagValue),
     transformTagAttributes = (\<lambda>tagKey tagAttributes. tagAttributes) \<rparr>"



definition clearingTagProcessor :: customTagProcessor where
  "clearingTagProcessor tagKey tagValue tagAttributes c shared =
     (c, shared\<lparr>isMultivariantPlaylist := False\<rparr>)"

definition clearingOptions :: ParserOptions where
  "clearingOptions = defaultParserOptions\<lparr>customTagMap :=
     (\<lambda>k. if k = ''EXT-X-CLEAR'' then Some clearingTagProcessor else None)\<rparr>"

definition shiftingTagProcessor :: customTagProcessor where
  "shiftingTagProcessor tagKey tagValue tagAttributes c shared =
     (c, shared\<lparr>baseTime := 100\<rparr>)"

definition shiftingOptions :: ParserOptions where
  "shiftingOptions = defaultParserOptions\<lparr>customTagMap :=
     (\<lambda>k. if k = ''EXT-X-SHIFT'' then Some shiftingTagProcessor else None)\<rparr>"


text \<open>A parser on which EXT-X-STREAM-INF has set the multivariant flag.\<close>

definition multivariantParser :: Parser where
  "multivariantParser =
     newParser\<lparr>sharedState := createDefaultSharedState\<lparr>isMultivariantPlaylist := True\<rparr>\<rparr>"

text \<open>A media playlist of two segments, the second after a discontinuity, and the same
  text in two chunks that end inside a line.\<close>

definition examplePlaylistText :: string where
  "examplePlaylistText =
     ''#EXTM3U'' @ [newline] @ ''#EXTINF:5,'' @ [newline] @ ''a.ts'' @ [newline]
     @ ''#EXT-X-DISCONTINUITY'' @ [newline] @ ''#EXTINF:7,'' @ [newline] @ ''b.ts''"

definition exampleChunks :: "string list" where
  "exampleChunks =
     [''#EXTM3U'' @ [newline] @ ''#EXTI'',
      ''NF:5,'' @ [newline] @ ''a.ts'' @ [newline] @ ''#EXT-X-DISCONTINUITY'' @ [newline]
        @ ''#EXTINF:7,'' @ [newline] @ ''b.'',
      ''ts'']"

text \<open>A chunk that ends after the line of a custom tag, and the chunk of a URI line.\<close>

definition shiftChunks :: "string list" where
  "shiftChunks = [''#EXT-X-SHIFT'' @ [newline], ''a.ts'']"

section \<open>Predicates of the statements\<close>

text \<open>A warning of \<^verbatim>\<open>failedToResolveUri\<close>, told by the way its text starts.\<close>

definition isFailedToResolveWarning :: "string \<Rightarrow> bool" where
  "isFailedToResolveWarning w = prefix ''Failed to resolve '' w"

text \<open>The URI as \<^verbatim>\<open>uriInfoCallback\<close> uses it: after substitution when the shared
  state has variables, as it came otherwise.\<close>

definition substitutedUri :: "Env \<Rightarrow> string \<Rightarrow> Parser \<Rightarrow> string" where
  "substitutedUri env u st =
     (if hasVariablesForSubstitution (sharedState st)
      then fst (substituteVariables env u (playlistDefine (parsedPlaylist st)))
      else u)"

text \<open>The steps of \<^verbatim>\<open>uriInfoCallback\<close> before it hands over to an assembler: the
  warnings of the substitution and of the resolution, and the resolved URI.\<close>

definition uriWarnings :: "Env \<Rightarrow> string \<Rightarrow> Parser \<Rightarrow> string list" where
  "uriWarnings env u st =
     (if hasVariablesForSubstitution (sharedState st)
      then map (missingRequiredVariableForUriSubstitutionWarn u)
             (snd (substituteVariables env u (playlistDefine (parsedPlaylist st))))
      else [])
     @ (case resolveUri env (substitutedUri env u st) (baseUrl (sharedState st)) of
          None \<Rightarrow> [failedToResolveUri (substitutedUri env u st) (baseUrl (sharedState st))]
        | Some r \<Rightarrow> [])"

definition resolvedOrRaw :: "Env \<Rightarrow> string \<Rightarrow> Parser \<Rightarrow> string" where
  "resolvedOrRaw env u st =
     (case resolveUri env (substitutedUri env u st) (baseUrl (sharedState st)) of
        None \<Rightarrow> substitutedUri env u st
      | Some r \<Rightarrow> r)"


section \<open>Closed forms of the two loops of the attribute-tag base class\<close>

text \<open>The attributes after \<^verbatim>\<open>runVariableSubstitution\<close> has replaced every value, and
  the warnings the loop gives, in order.\<close>

definition substitutedAttributes :: "Env \<Rightarrow> Define \<Rightarrow> attributes \<Rightarrow> attributes" where
  "substitutedAttributes env d attrs =
     map (\<lambda>kv. (fst kv, fst (substituteVariables env (snd kv) d))) attrs"

definition substitutionWarnings :: "Env \<Rightarrow> string \<Rightarrow> Define \<Rightarrow> attributes \<Rightarrow> string list" where
  "substitutionWarnings env t d attrs =
     concat (map (\<lambda>kv. map (missingRequiredVariableForAttributeValueSubstitutionWarn t (fst kv))
                          (snd (substituteVariables env (snd kv) d))) attrs)"

section \<open>Predicates of the proofs\<close>

text \<open>What a tag leaves alone: the two sequences of the playlist, the three fields
  \<^verbatim>\<open>gatherParseOptions\<close> writes, and a multivariant flag that is set.\<close>

definition sameSequences :: "Parser \<Rightarrow> Parser \<Rightarrow> bool" where
  "sameSequences st st' \<longleftrightarrow>
     segments (parsedPlaylist st') = segments (parsedPlaylist st)
     \<and> variantStreams (parsedPlaylist st') = variantStreams (parsedPlaylist st)"

definition sameBase :: "SharedState \<Rightarrow> SharedState \<Rightarrow> bool" where
  "sameBase sh sh' \<longleftrightarrow>
     baseUrl sh' = baseUrl sh \<and> baseTime sh' = baseTime sh \<and> baseDefine sh' = baseDefine sh"

definition keepsMultivariant :: "SharedState \<Rightarrow> SharedState \<Rightarrow> bool" where
  "keepsMultivariant sh sh' \<longleftrightarrow> (isMultivariantPlaylist sh \<longrightarrow> isMultivariantPlaylist sh')"

definition framed :: "Parser \<Rightarrow> Parser \<Rightarrow> bool" where
  "framed st st' \<longleftrightarrow> sameSequences st st' \<and> sameBase (sharedState st) (sharedState st')
     \<and> keepsMultivariant (sharedState st) (sharedState st')"

section \<open>Predicates of the statements, continued\<close>

text \<open>What a result holds: whether it is a value, the start times of the segments of a
  returned playlist, the multivariant flag after a run of callbacks, and the lengths of
  the two sequences.\<close>

definition succeeds :: "error + 'a \<Rightarrow> bool" where
  "succeeds r = (case r of Inl e \<Rightarrow> False | Inr x \<Rightarrow> True)"

definition startTimes :: "error + ParsedPlaylist \<Rightarrow> error + real list" where
  "startTimes r = (case r of Inl e \<Rightarrow> Inl e | Inr p \<Rightarrow> Inr (map startTime (segments p)))"

definition multivariantAfter :: "error + Parser \<Rightarrow> error + bool" where
  "multivariantAfter r =
     (case r of Inl e \<Rightarrow> Inl e | Inr st \<Rightarrow> Inr (isMultivariantPlaylist (sharedState st)))"

definition sequenceLengths :: "error + Parser \<Rightarrow> error + nat \<times> nat" where
  "sequenceLengths r =
     (case r of
        Inl e \<Rightarrow> Inl e
      | Inr st \<Rightarrow> Inr (length (segments (parsedPlaylist st)),
                        length (variantStreams (parsedPlaylist st))))"



text \<open>Custom tag processors that leave a set multivariant flag set, and custom tag
  processors that leave alone the three fields \<^verbatim>\<open>gatherParseOptions\<close> writes; the
  number of URI lines among the events; a shared state that holds the parse options.\<close>

definition handlersKeepMultivariant :: "ParserOptions \<Rightarrow> bool" where
  "handlersKeepMultivariant opts \<longleftrightarrow>
     (\<forall>k h v a c sh. customTagMap opts k = Some h \<and> isMultivariantPlaylist sh
        \<longrightarrow> isMultivariantPlaylist (snd (h k v a c sh)))"

definition handlersKeepBase :: "ParserOptions \<Rightarrow> bool" where
  "handlersKeepBase opts \<longleftrightarrow>
     (\<forall>k h v a c sh. customTagMap opts k = Some h \<longrightarrow>
        baseUrl (snd (h k v a c sh)) = baseUrl sh
        \<and> baseTime (snd (h k v a c sh)) = baseTime sh
        \<and> baseDefine (snd (h k v a c sh)) = baseDefine sh)"

fun uriCount :: "event list \<Rightarrow> nat" where
  "uriCount [] = 0"
| "uriCount (TagInfo k v a # evs) = uriCount evs"
| "uriCount (UriInfo u # evs) = Suc (uriCount evs)"

definition optionsGathered :: "ParseOptions \<Rightarrow> SharedState \<Rightarrow> bool" where
  "optionsGathered options sh \<longleftrightarrow>
     sameBase (sharedState (gatherParseOptions options newParser)) sh"


section \<open>What the processors leave alone\<close>

lemmas framed_defs = framed_def sameSequences_def sameBase_def keepsMultivariant_def

lemma framed_refl: "framed st st"
  by (simp add: framed_defs)

lemma framed_trans: "framed a b \<Longrightarrow> framed b c \<Longrightarrow> framed a c"
  by (simp add: framed_defs)

lemma framed_warn: "framed st (warn w st)"
  by (simp add: framed_defs warn_def)

lemma framed_warnAll: "framed st (warnAll ws st)"
  by (simp add: framed_defs warnAll_def)

lemma framed_resolveUriAttribute:
  "resolveUriAttribute env t u b k st = (r, st1) \<Longrightarrow> framed st st1"
  by (auto simp: resolveUriAttribute_def framed_warn framed_refl split: option.splits)

lemma framed_resolveOptionalUri:
  "resolveOptionalUri env t attrs k st = (r, st1) \<Longrightarrow> framed st st1"
  by (auto simp: resolveOptionalUri_def framed_refl split: if_splits prod.splits
      dest: framed_resolveUriAttribute)

lemma framed_parseEncryptionTag:
  "parseEncryptionTag env t attrs st = (r, st1) \<Longrightarrow> framed st st1"
  by (auto simp: parseEncryptionTag_def split: prod.splits dest: framed_resolveOptionalUri)

lemma framed_playlist_update:
  "segments (f (parsedPlaylist st)) = segments (parsedPlaylist st) \<Longrightarrow>
   variantStreams (f (parsedPlaylist st)) = variantStreams (parsedPlaylist st) \<Longrightarrow>
   framed st (st\<lparr>parsedPlaylist := f (parsedPlaylist st)\<rparr>)"
  by (simp add: framed_defs)

lemma framed_ExtXStart: "ExtXStart_safeProcess env attrs st = Inr st' \<Longrightarrow> framed st st'"
  by (auto simp: ExtXStart_safeProcess_def framed_defs)

lemma framed_ExtXPartInf: "ExtXPartInf_safeProcess env attrs st = Inr st' \<Longrightarrow> framed st st'"
  by (auto simp: ExtXPartInf_safeProcess_def framed_defs)

lemma framed_ExtXServerControl:
  "ExtXServerControl_safeProcess env attrs st = Inr st' \<Longrightarrow> framed st st'"
  by (auto simp: ExtXServerControl_safeProcess_def framed_defs Let_def)

lemma framed_ExtXKey: "ExtXKey_safeProcess env attrs st = Inr st' \<Longrightarrow> framed st st'"
proof -
  assume a: "ExtXKey_safeProcess env attrs st = Inr st'"
  obtain e st1 where p: "parseEncryptionTag env EXT_X_KEY attrs st = (e, st1)"
    by (cases "parseEncryptionTag env EXT_X_KEY attrs st")
  have f1: "framed st st1" using p by (rule framed_parseEncryptionTag)
  have "framed st1 st'"
    using a p by (auto simp: ExtXKey_safeProcess_def warn_def framed_defs split: if_splits)
  with f1 show ?thesis by (rule framed_trans)
qed

lemma framed_ExtXMap: "ExtXMap_safeProcess env attrs st = Inr st' \<Longrightarrow> framed st st'"
proof -
  assume a: "ExtXMap_safeProcess env attrs st = Inr st'"
  obtain r st1 where p: "resolveUriAttribute env EXT_X_MAP (attrString attrs ''URI'')
      (baseUrl (sharedState st)) ''URI'' st = (r, st1)"
    by (cases "resolveUriAttribute env EXT_X_MAP (attrString attrs ''URI'')
      (baseUrl (sharedState st)) ''URI'' st")
  have f1: "framed st st1" using p by (rule framed_resolveUriAttribute)
  have "framed st1 st'"
    using a p by (auto simp: ExtXMap_safeProcess_def Let_def framed_defs)
  with f1 show ?thesis by (rule framed_trans)
qed

lemma framed_pushPart: "framed st (pushPart p st)"
  by (simp add: pushPart_def framed_defs)

lemma framed_ExtXPart: "ExtXPart_safeProcess env attrs st = Inr st' \<Longrightarrow> framed st st'"
proof -
  assume a: "ExtXPart_safeProcess env attrs st = Inr st'"
  obtain r st1 where p: "resolveUriAttribute env EXT_X_PART (attrString attrs ''URI'')
      (baseUrl (sharedState st)) ''URI'' st = (r, st1)"
    by (cases "resolveUriAttribute env EXT_X_PART (attrString attrs ''URI'')
      (baseUrl (sharedState st)) ''URI'' st")
  have f1: "framed st st1" using p by (rule framed_resolveUriAttribute)
  have "framed st1 st'"
    using a p by (auto simp: ExtXPart_safeProcess_def Let_def framed_warn framed_pushPart
        split: if_splits)
  with f1 show ?thesis by (rule framed_trans)
qed

lemma framed_ExtXSkip: "ExtXSkip_safeProcess env attrs st = Inr st' \<Longrightarrow> framed st st'"
  by (auto simp: ExtXSkip_safeProcess_def Let_def framed_defs split: if_splits option.splits)

lemma framed_ExtXMedia: "ExtXMedia_safeProcess env attrs st = Inr st' \<Longrightarrow> framed st st'"
proof -
  assume a: "ExtXMedia_safeProcess env attrs st = Inr st'"
  obtain r st1 where p: "resolveOptionalUri env EXT_X_MEDIA attrs ''URI'' st = (r, st1)"
    by (cases "resolveOptionalUri env EXT_X_MEDIA attrs ''URI'' st")
  have f1: "framed st st1" using p by (rule framed_resolveOptionalUri)
  have "framed st1 st'"
    using a p by (auto simp: ExtXMedia_safeProcess_def Let_def framed_defs
        split: option.splits RenditionKey.splits sum.splits)
  with f1 show ?thesis by (rule framed_trans)
qed

lemma framed_ExtXStreamInf:
  "ExtXStreamInf_safeProcess env attrs st = Inr st' \<Longrightarrow> framed st st'"
  by (auto simp: ExtXStreamInf_safeProcess_def Let_def framed_defs)

lemma framed_ExtXIFrameStreamInf:
  "ExtXIFrameStreamInf_safeProcess env attrs st = Inr st' \<Longrightarrow> framed st st'"
proof -
  assume a: "ExtXIFrameStreamInf_safeProcess env attrs st = Inr st'"
  obtain r st1 where p: "resolveUriAttribute env EXT_X_I_FRAME_STREAM_INF
      (attrString attrs ''URI'') (baseUrl (sharedState st)) ''URI'' st = (r, st1)"
    by (cases "resolveUriAttribute env EXT_X_I_FRAME_STREAM_INF
      (attrString attrs ''URI'') (baseUrl (sharedState st)) ''URI'' st")
  have f1: "framed st st1" using p by (rule framed_resolveUriAttribute)
  have "framed st1 st'"
    using a p by (auto simp: ExtXIFrameStreamInf_safeProcess_def Let_def framed_defs)
  with f1 show ?thesis by (rule framed_trans)
qed

lemma framed_ExtXDateRange:
  "ExtXDateRange_safeProcess env attrs st = Inr st' \<Longrightarrow> framed st st'"
  by (auto simp: ExtXDateRange_safeProcess_def Let_def framed_defs)

lemma framed_ExtXPreloadHint:
  "ExtXPreloadHint_safeProcess env attrs st = Inr st' \<Longrightarrow> framed st st'"
proof -
  assume a: "ExtXPreloadHint_safeProcess env attrs st = Inr st'"
  obtain r st1 where p: "resolveUriAttribute env EXT_X_PRELOAD_HINT
      (attrString attrs ''URI'') (baseUrl (sharedState st)) ''URI'' st = (r, st1)"
    by (cases "resolveUriAttribute env EXT_X_PRELOAD_HINT
      (attrString attrs ''URI'') (baseUrl (sharedState st)) ''URI'' st")
  have f1: "framed st st1" using p by (rule framed_resolveUriAttribute)
  have "framed st1 st'"
    using a p by (auto simp: ExtXPreloadHint_safeProcess_def Let_def framed_defs)
  with f1 show ?thesis by (rule framed_trans)
qed

lemma framed_ExtXRenditionReport:
  "ExtXRenditionReport_safeProcess env attrs st = Inr st' \<Longrightarrow> framed st st'"
proof -
  assume a: "ExtXRenditionReport_safeProcess env attrs st = Inr st'"
  obtain r st1 where p: "resolveUriAttribute env EXT_X_RENDITION_REPORT
      (attrString attrs ''URI'') (baseUrl (sharedState st)) ''URI'' st = (r, st1)"
    by (cases "resolveUriAttribute env EXT_X_RENDITION_REPORT
      (attrString attrs ''URI'') (baseUrl (sharedState st)) ''URI'' st")
  have f1: "framed st st1" using p by (rule framed_resolveUriAttribute)
  have "framed st1 st'"
    using a p by (auto simp: ExtXRenditionReport_safeProcess_def Let_def framed_defs)
  with f1 show ?thesis by (rule framed_trans)
qed

lemma framed_ExtXSessionData:
  "ExtXSessionData_safeProcess env attrs st = Inr st' \<Longrightarrow> framed st st'"
proof -
  assume a: "ExtXSessionData_safeProcess env attrs st = Inr st'"
  obtain r st1 where p: "resolveOptionalUri env EXT_X_SESSION_DATA attrs ''URI'' st = (r, st1)"
    by (cases "resolveOptionalUri env EXT_X_SESSION_DATA attrs ''URI'' st")
  have f1: "framed st st1" using p by (rule framed_resolveOptionalUri)
  have "framed st1 st'"
    using a p by (auto simp: ExtXSessionData_safeProcess_def Let_def framed_defs)
  with f1 show ?thesis by (rule framed_trans)
qed

lemma framed_ExtXSessionKey:
  "ExtXSessionKey_safeProcess env attrs st = Inr st' \<Longrightarrow> framed st st'"
proof -
  assume a: "ExtXSessionKey_safeProcess env attrs st = Inr st'"
  obtain e st1 where p: "parseEncryptionTag env EXT_X_SESSION_KEY attrs st = (e, st1)"
    by (cases "parseEncryptionTag env EXT_X_SESSION_KEY attrs st")
  have f1: "framed st st1" using p by (rule framed_parseEncryptionTag)
  have "framed st1 st'"
    using a p by (auto simp: ExtXSessionKey_safeProcess_def framed_defs)
  with f1 show ?thesis by (rule framed_trans)
qed

lemma framed_ExtXContentSteering:
  "ExtXContentSteering_safeProcess env attrs st = Inr st' \<Longrightarrow> framed st st'"
proof -
  assume a: "ExtXContentSteering_safeProcess env attrs st = Inr st'"
  obtain r st1 where p: "resolveUriAttribute env EXT_X_CONTENT_STEERING
      (attrString attrs ''SERVER-URI'') (baseUrl (sharedState st)) ''SERVER-URI'' st = (r, st1)"
    by (cases "resolveUriAttribute env EXT_X_CONTENT_STEERING
      (attrString attrs ''SERVER-URI'') (baseUrl (sharedState st)) ''SERVER-URI'' st")
  have f1: "framed st st1" using p by (rule framed_resolveUriAttribute)
  have "framed st1 st'"
    using a p by (auto simp: ExtXContentSteering_safeProcess_def Let_def framed_defs)
  with f1 show ?thesis by (rule framed_trans)
qed

lemma framed_setHasVariables: "framed st (setHasVariables st)"
  by (simp add: setHasVariables_def framed_defs)

lemma framed_defineByName: "framed st (defineByName attrs st)"
  by (simp add: defineByName_def setHasVariables_def Let_def framed_defs)

lemma framed_defineByImport: "framed st (defineByImport attrs st)"
  by (simp add: defineByImport_def setHasVariables_def Let_def framed_defs)

lemma framed_defineByQueryParam: "framed st (defineByQueryParam env attrs st)"
  by (simp add: defineByQueryParam_def setHasVariables_def Let_def framed_defs)

lemma framed_ExtXDefine: "ExtXDefine_safeProcess env attrs st = Inr st' \<Longrightarrow> framed st st'"
  unfolding ExtXDefine_safeProcess_def
  using framed_defineByName framed_defineByImport framed_defineByQueryParam framed_trans
  by (metis sum.inject(2))

lemma framed_attribute_processors:
  "(k, p) \<in> set tagAttributesMap \<Longrightarrow> safeProcess p env attrs st = Inr st' \<Longrightarrow> framed st st'"
  unfolding tagAttributesMap_def
  by (auto simp: ExtXStart_def ExtXPartInf_def ExtXServerControl_def ExtXKey_def ExtXMap_def
      ExtXPart_def ExtXMedia_def ExtXStreamInf_def ExtXSkip_def ExtXIFrameStreamInf_def
      ExtXDateRange_def ExtXPreloadHint_def ExtXRenditionReport_def ExtXSessionData_def
      ExtXSessionKey_def ExtXContentSteering_def ExtXDefine_def
      dest: framed_ExtXStart framed_ExtXPartInf framed_ExtXServerControl framed_ExtXKey
      framed_ExtXMap framed_ExtXPart framed_ExtXMedia framed_ExtXStreamInf framed_ExtXSkip
      framed_ExtXIFrameStreamInf framed_ExtXDateRange framed_ExtXPreloadHint
      framed_ExtXRenditionReport framed_ExtXSessionData framed_ExtXSessionKey
      framed_ExtXContentSteering framed_ExtXDefine)


lemma framed_updateCurrentSegment: "framed st (updateCurrentSegment f st)"
  by (simp add: updateCurrentSegment_def framed_defs)

lemma framed_empty_processors: "(k, p) \<in> set emptyTagMap \<Longrightarrow> framed st (p st)"
  unfolding emptyTagMap_def
  by (auto simp: ExtM3u_def ExtXIndependentSegments_def ExtXEndList_def ExtXIframesOnly_def
      ExtXDiscontinuity_def ExtXGap_def framed_updateCurrentSegment)
     (simp_all add: framed_defs)

lemma framed_numberValue:
  "(\<And>x s. framed s (assign x s)) \<Longrightarrow> framed st (numberValue t assign env v st)"
  by (simp add: numberValue_def framed_warn split: number.splits)

lemma framed_ExtXPlaylistType: "framed st (ExtXPlaylistType env v st)"
  by (simp add: ExtXPlaylistType_def framed_warn) (simp add: framed_defs)

lemma framed_ExtInf: "framed st (ExtInf env v st)"
  by (simp add: ExtInf_def Let_def framed_warn framed_updateCurrentSegment split: number.splits)

lemma framed_ExtXByteRange: "framed st (ExtXByteRange env v st)"
  by (simp add: ExtXByteRange_def Let_def framed_warn framed_updateCurrentSegment
      split: number.splits option.splits list.splits)

lemma framed_ExtXProgramDateTime: "framed st (ExtXProgramDateTime env v st)"
  by (simp add: ExtXProgramDateTime_def framed_warn framed_updateCurrentSegment
      split: number.splits)

lemma framed_value_processors: "(k, p) \<in> set tagValueMap \<Longrightarrow> framed st (p env v st)"
  unfolding tagValueMap_def
  by (auto simp: ExtXVersion_def ExtXTargetDuration_def ExtXMediaSequence_def
      ExtXDiscontinuitySequence_def ExtXBitrate_def framed_ExtXPlaylistType framed_ExtInf
      framed_ExtXByteRange framed_ExtXProgramDateTime intro!: framed_numberValue)
     (simp_all add: framed_defs)

lemma framed_checkRequiredLoop:
  "checkRequiredLoop t attrs rs (b, st) = (b', st') \<Longrightarrow> framed st st'"
proof (induction rs arbitrary: b st)
  case Nil
  then show ?case by (simp add: framed_refl)
next
  case (Cons r rs)
  show ?case
  proof (cases "obj_get attrs r = None")
    case True
    with Cons.prems have "checkRequiredLoop t attrs rs
        (True, warn (missingRequiredAttributeWarn t r) st) = (b', st')"
      by simp
    then have "framed (warn (missingRequiredAttributeWarn t r) st) st'"
      by (rule Cons.IH)
    with framed_warn show ?thesis by (rule framed_trans)
  next
    case False
    with Cons.prems have "checkRequiredLoop t attrs rs (b, st) = (b', st')"
      by simp
    then show ?thesis by (rule Cons.IH)
  qed
qed

lemma framed_substituteLoop:
  "substituteLoop env t attrs st = (attrs', st') \<Longrightarrow> framed st st'"
proof (induction attrs arbitrary: st attrs' st')
  case Nil
  then show ?case by (simp add: framed_refl)
next
  case (Cons kv rest)
  obtain k v where kv: "kv = (k, v)" by (cases kv)
  obtain v1 missing where sv:
    "substituteVariables env v (playlistDefine (parsedPlaylist st)) = (v1, missing)"
    by (cases "substituteVariables env v (playlistDefine (parsedPlaylist st))")
  define st1 where "st1 = warnAll (map (missingRequiredVariableForAttributeValueSubstitutionWarn t
                                k) missing) st"
  obtain rest' st2 where r: "substituteLoop env t rest st1 = (rest', st2)"
    by (cases "substituteLoop env t rest st1")
  have "st' = st2" using Cons.prems kv sv r by (simp add: st1_def)
  moreover have "framed st1 st2" using r by (rule Cons.IH)
  moreover have "framed st st1" unfolding st1_def by (rule framed_warnAll)
  ultimately show ?case using framed_trans by blast
qed

lemma framed_process:
  assumes "(k, p) \<in> set tagAttributesMap" and "process env p attrs st = Inr st'"
  shows "framed st st'"
proof -
  obtain missed st1 where c: "checkRequiredAttributes p attrs st = (missed, st1)"
    by (cases "checkRequiredAttributes p attrs st")
  then have f1: "framed st st1"
    unfolding checkRequiredAttributes_def by (rule framed_checkRequiredLoop)
  show ?thesis
  proof (cases missed)
    case True
    then have "st' = st1" using assms(2) c by (simp add: process_def)
    with f1 show ?thesis by simp
  next
    case False
    obtain attrs' st2 where r: "runVariableSubstitution env p attrs st1 = (attrs', st2)"
      by (cases "runVariableSubstitution env p attrs st1")
    then have f2: "framed st1 st2"
      by (auto simp: runVariableSubstitution_def framed_refl split: if_splits
          dest: framed_substituteLoop)
    have "safeProcess p env attrs' st2 = Inr st'"
      using assms(2) c r False by (simp add: process_def)
    with assms(1) have "framed st2 st'" by (rule framed_attribute_processors)
    with f1 f2 show ?thesis using framed_trans by blast
  qed
qed

text \<open>The five ways \<^verbatim>\<open>tagInfoCallback\<close> returns.\<close>

lemma tagInfoCallback_cases:
  assumes "tagInfoCallback env opts k v a st = Inr st'"
  obtains (warned) w where "st' = warn w st"
  | (emptyTag) p where "(k, p) \<in> set emptyTagMap" and "st' = p st"
  | (valueTag) p x where "(k, p) \<in> set tagValueMap" and "st' = p env x st"
  | (attributeTag) p where "(k, p) \<in> set tagAttributesMap"
      and "process env p (transformTagAttributes opts k a) st = Inr st'"
  | (customTag) h where "customTagMap opts k = Some h"
      and "st' = runCustomTagProcessor h k v a st"
  using assms unfolding tagInfoCallback_def
  by (auto split: if_splits option.splits dest: map_of_SomeD)

lemma sameSequences_custom:
  "sameSequences st (runCustomTagProcessor h k v a st)"
  by (simp add: runCustomTagProcessor_def sameSequences_def split: prod.splits)

lemma tagInfoCallback_sameSequences:
  assumes "tagInfoCallback env opts k v a st = Inr st'"
  shows "sameSequences st st'"
  using assms
proof (cases rule: tagInfoCallback_cases)
  case (warned w)
  then show ?thesis using framed_warn by (simp add: framed_def)
next
  case (emptyTag p)
  then show ?thesis using framed_empty_processors by (simp add: framed_def)
next
  case (valueTag p x)
  then show ?thesis using framed_value_processors by (simp add: framed_def)
next
  case (attributeTag p)
  then show ?thesis using framed_process by (simp add: framed_def)
next
  case (customTag h)
  then show ?thesis by (simp add: sameSequences_custom)
qed

section \<open>The loops of the attribute-tag base class\<close>

lemma warnAll_Nil: "warnAll [] st = st"
  by (simp add: warnAll_def)

lemma warnAll_warn: "warnAll ws (warn w st) = warnAll (w # ws) st"
  by (simp add: warnAll_def warn_def)

lemma warnAll_warnAll: "warnAll ws (warnAll vs st) = warnAll (vs @ ws) st"
  by (simp add: warnAll_def)

lemma checkRequiredLoop_closed:
  "checkRequiredLoop t attrs rs (b, st) =
     (b \<or> (\<exists>r \<in> set rs. obj_get attrs r = None),
      warnAll (map (missingRequiredAttributeWarn t) (filter (\<lambda>r. obj_get attrs r = None) rs)) st)"
proof (induction rs arbitrary: b st)
  case Nil
  then show ?case by (simp add: warnAll_Nil)
next
  case (Cons r rs)
  show ?case
  proof (cases "obj_get attrs r = None")
    case True
    then show ?thesis by (simp add: Cons.IH warnAll_warn)
  next
    case False
    then show ?thesis by (auto simp: Cons.IH)
  qed
qed

lemma state_warnAll [simp]:
  "parsedPlaylist (warnAll ws st) = parsedPlaylist st"
  "sharedState (warnAll ws st) = sharedState st"
  by (simp_all add: warnAll_def)

lemma substituteLoop_closed:
  "substituteLoop env t attrs st =
     (substitutedAttributes env (playlistDefine (parsedPlaylist st)) attrs,
      warnAll (substitutionWarnings env t (playlistDefine (parsedPlaylist st)) attrs) st)"
proof (induction attrs arbitrary: st)
  case Nil
  then show ?case
    by (simp add: substitutedAttributes_def substitutionWarnings_def warnAll_Nil)
next
  case (Cons kv rest)
  obtain k v where kv: "kv = (k, v)" by (cases kv)
  show ?case unfolding kv
    by (simp add: Cons.IH substitutedAttributes_def substitutionWarnings_def warnAll_warnAll
        split: prod.splits)
qed

lemma obj_get_substitutedAttributes:
  "obj_get (substitutedAttributes env d attrs) k =
     map_option (\<lambda>v. fst (substituteVariables env v d)) (obj_get attrs k)"
  by (induction attrs) (auto simp: substitutedAttributes_def)

lemma map_of_attr_skip: "map_of tagAttributesMap EXT_X_SKIP = Some ExtXSkip"
  by (simp add: tagAttributesMap_def EXT_X_START_def EXT_X_PART_INF_def
      EXT_X_SERVER_CONTROL_def EXT_X_KEY_def EXT_X_MAP_def EXT_X_PART_def EXT_X_SKIP_def
      EXT_X_MEDIA_def EXT_X_STREAM_INF_def)

lemma map_of_empty_skip: "map_of emptyTagMap EXT_X_SKIP = None"
  by (simp add: emptyTagMap_def EXT_X_SKIP_def EXTM3U_def EXT_X_INDEPENDENT_SEGMENTS_def
      EXT_X_ENDLIST_def EXT_X_I_FRAMES_ONLY_def EXT_X_DISCONTINUITY_def EXT_X_GAP_def)

lemma skip_not_inherited: "EXT_X_SKIP \<notin> set objectPrototypeKeys"
  by (simp add: EXT_X_SKIP_def objectPrototypeKeys_def)

lemma map_of_value_skip: "map_of tagValueMap EXT_X_SKIP = None"
  by (simp add: tagValueMap_def EXT_X_SKIP_def EXT_X_VERSION_def EXT_X_TARGETDURATION_def
      EXT_X_MEDIA_SEQUENCE_def EXT_X_DISCONTINUITY_SEQUENCE_def EXT_X_PLAYLIST_TYPE_def
      EXTINF_def EXT_X_BYTERANGE_def EXT_X_BITRATE_def EXT_X_PROGRAM_DATE_TIME_def)

lemma process_closed:
  "process env p attrs st =
     (if \<exists>r \<in> set (requiredAttributes p). obj_get attrs r = None
      then Inr (warnAll (map (missingRequiredAttributeWarn (tag_of p))
                           (filter (\<lambda>r. obj_get attrs r = None) (requiredAttributes p))) st)
      else if hasVariablesForSubstitution (sharedState st)
      then safeProcess p env
             (substitutedAttributes env (playlistDefine (parsedPlaylist st)) attrs)
             (warnAll (substitutionWarnings env (tag_of p)
                         (playlistDefine (parsedPlaylist st)) attrs) st)
      else safeProcess p env attrs st)"
  by (auto simp: process_def checkRequiredAttributes_def checkRequiredLoop_closed
      runVariableSubstitution_def substituteLoop_closed warnAll_Nil)

section \<open>The URI callback in closed form\<close>

lemma state_warn [simp]:
  "parsedPlaylist (warn w st) = parsedPlaylist st"
  "sharedState (warn w st) = sharedState st"
  "warnings (warn w st) = warnings st @ [w]"
  by (simp_all add: warn_def)

lemma warnings_warnAll [simp]: "warnings (warnAll ws st) = warnings st @ ws"
  by (simp add: warnAll_def)

lemma prefix_failed_unable [simp]:
  "\<not> isFailedToResolveWarning (missingRequiredVariableForUriSubstitutionWarn u x)"
  by (simp add: isFailedToResolveWarning_def missingRequiredVariableForUriSubstitutionWarn_def)

lemma prefix_failed_duration [simp]:
  "\<not> isFailedToResolveWarning (segmentDurationExceededTargetDuration env u d t)"
  by (simp add: isFailedToResolveWarning_def segmentDurationExceededTargetDuration_def)

lemma prefix_failed_failed [simp]:
  "isFailedToResolveWarning (failedToResolveUri u b)"
  by (simp add: isFailedToResolveWarning_def failedToResolveUri_def)

lemma filter_failed_unable [simp]:
  "filter isFailedToResolveWarning (map (missingRequiredVariableForUriSubstitutionWarn u) xs) = []"
  by (induction xs) simp_all

lemma handleCurrentSegment_result:
  "parsedPlaylist (handleCurrentSegment env u r st) =
     (parsedPlaylist st)\<lparr>segments := segments (parsedPlaylist st) @
        [finalizeSegment (sharedState st) (previousSegmentOf (segments (parsedPlaylist st))) u r]\<rparr>"
  "sharedState (handleCurrentSegment env u r st) =
     (sharedState st)\<lparr>currentSegment := createDefaultSegment\<rparr>"
  "warnings (handleCurrentSegment env u r st) =
     warnings st @
       (case targetDuration (parsedPlaylist st) of
          Some t \<Rightarrow> if duration (currentSegment (sharedState st)) > t
                    then [segmentDurationExceededTargetDuration env u
                            (duration (currentSegment (sharedState st))) t]
                    else []
        | None \<Rightarrow> [])"
  by (simp_all add: handleCurrentSegment_def Let_def split: option.splits)

text \<open>Which fields each group of assignments leaves alone.\<close>

lemma setProgramDateTimeEnd_fields [simp]:
  "uri (setProgramDateTimeEnd s) = uri s"
  "resolvedUri (setProgramDateTimeEnd s) = resolvedUri s"
  "bitrate (setProgramDateTimeEnd s) = bitrate s"
  "mediaSequence (setProgramDateTimeEnd s) = mediaSequence s"
  "discontinuitySequence (setProgramDateTimeEnd s) = discontinuitySequence s"
  "isDiscontinuity (setProgramDateTimeEnd s) = isDiscontinuity s"
  "startTime (setProgramDateTimeEnd s) = startTime s"
  "endTime (setProgramDateTimeEnd s) = endTime s"
  "duration (setProgramDateTimeEnd s) = duration s"
  by (simp_all add: setProgramDateTimeEnd_def split: option.splits)

lemma extrapolateProgramDateTime_fields [simp]:
  "uri (extrapolateProgramDateTime prev s) = uri s"
  "resolvedUri (extrapolateProgramDateTime prev s) = resolvedUri s"
  "bitrate (extrapolateProgramDateTime prev s) = bitrate s"
  "mediaSequence (extrapolateProgramDateTime prev s) = mediaSequence s"
  "discontinuitySequence (extrapolateProgramDateTime prev s) = discontinuitySequence s"
  "isDiscontinuity (extrapolateProgramDateTime prev s) = isDiscontinuity s"
  "startTime (extrapolateProgramDateTime prev s) = startTime s"
  "endTime (extrapolateProgramDateTime prev s) = endTime s"
  "duration (extrapolateProgramDateTime prev s) = duration s"
  by (simp_all add: extrapolateProgramDateTime_def split: option.splits)

lemma applyBitrate_fields [simp]:
  "uri (applyBitrate sh s) = uri s"
  "resolvedUri (applyBitrate sh s) = resolvedUri s"
  "mediaSequence (applyBitrate sh s) = mediaSequence s"
  "discontinuitySequence (applyBitrate sh s) = discontinuitySequence s"
  "isDiscontinuity (applyBitrate sh s) = isDiscontinuity s"
  "startTime (applyBitrate sh s) = startTime s"
  "endTime (applyBitrate sh s) = endTime s"
  "duration (applyBitrate sh s) = duration s"
  by (simp_all add: applyBitrate_def)

lemma setEndTime_fields [simp]:
  "uri (setEndTime s) = uri s"
  "resolvedUri (setEndTime s) = resolvedUri s"
  "bitrate (setEndTime s) = bitrate s"
  "byteRange (setEndTime s) = byteRange s"
  "mediaSequence (setEndTime s) = mediaSequence s"
  "discontinuitySequence (setEndTime s) = discontinuitySequence s"
  "isDiscontinuity (setEndTime s) = isDiscontinuity s"
  "startTime (setEndTime s) = startTime s"
  "duration (setEndTime s) = duration s"
  "endTime (setEndTime s) = startTime s + duration s"
  by (simp_all add: setEndTime_def)

lemma linkToPrevious_fields [simp]:
  "uri (linkToPrevious prev s) = uri s"
  "resolvedUri (linkToPrevious prev s) = resolvedUri s"
  "bitrate (linkToPrevious prev s) = bitrate s"
  "byteRange (linkToPrevious prev s) = byteRange s"
  "isDiscontinuity (linkToPrevious prev s) = isDiscontinuity s"
  "duration (linkToPrevious prev s) = duration s"
  by (simp_all add: linkToPrevious_def split: option.splits)

lemma linkToPrevious_None [simp]: "linkToPrevious None s = s"
  by (simp add: linkToPrevious_def)

lemma linkToPrevious_Some [simp]:
  "mediaSequence (linkToPrevious (Some prev) s) = mediaSequence prev + 1"
  "startTime (linkToPrevious (Some prev) s) = endTime prev"
  "discontinuitySequence (linkToPrevious (Some prev) s) =
     (if isDiscontinuity s then discontinuitySequence prev + 1 else discontinuitySequence prev)"
  by (simp_all add: linkToPrevious_def)

lemma startSegment_fields [simp]:
  "uri (startSegment sh u r) = u"
  "resolvedUri (startSegment sh u r) = r"
  "bitrate (startSegment sh u r) = bitrate (currentSegment sh)"
  "byteRange (startSegment sh u r) = byteRange (currentSegment sh)"
  "mediaSequence (startSegment sh u r) = mediaSequence (currentSegment sh)"
  "discontinuitySequence (startSegment sh u r) = discontinuitySequence (currentSegment sh)"
  "isDiscontinuity (startSegment sh u r) = isDiscontinuity (currentSegment sh)"
  "startTime (startSegment sh u r) = baseTime sh"
  "duration (startSegment sh u r) = duration (currentSegment sh)"
  by (simp_all add: startSegment_def)

lemma finalizeSegment_uri [simp]:
  "uri (finalizeSegment sh prev u r) = u"
  "resolvedUri (finalizeSegment sh prev u r) = r"
  by (simp_all add: finalizeSegment_def)

lemma handleCurrentVariant_result:
  "parsedPlaylist (handleCurrentVariant u r st) =
     (parsedPlaylist st)\<lparr>variantStreams := variantStreams (parsedPlaylist st) @
        [(currentVariant (sharedState st))\<lparr>variantUri := u, variantResolvedUri := r\<rparr>]\<rparr>"
  "sharedState (handleCurrentVariant u r st) =
     (sharedState st)\<lparr>currentVariant := createDefaultVariantStream\<rparr>"
  "warnings (handleCurrentVariant u r st) = warnings st"
  by (simp_all add: handleCurrentVariant_def Let_def)

lemma uriInfoCallback_closed:
  "uriInfoCallback env u st =
     (if isMultivariantPlaylist (sharedState st)
      then handleCurrentVariant (substitutedUri env u st) (resolvedOrRaw env u st)
             (warnAll (uriWarnings env u st) st)
      else handleCurrentSegment env (substitutedUri env u st) (resolvedOrRaw env u st)
             (warnAll (uriWarnings env u st) st))"
proof -
  obtain v missing where sv:
    "substituteVariables env u (playlistDefine (parsedPlaylist st)) = (v, missing)"
    by (cases "substituteVariables env u (playlistDefine (parsedPlaylist st))")
  show ?thesis
  proof (cases "hasVariablesForSubstitution (sharedState st)")
    case True
    show ?thesis
    proof (cases "resolveUri env v (baseUrl (sharedState st))")
      case None
      then show ?thesis
        using True sv
        by (simp add: uriInfoCallback_def substitutedUri_def resolvedOrRaw_def uriWarnings_def
            warnAll_def warn_def)
    next
      case (Some r)
      then show ?thesis
        using True sv
        by (simp add: uriInfoCallback_def substitutedUri_def resolvedOrRaw_def uriWarnings_def
            warnAll_def warn_def)
    qed
  next
    case False
    show ?thesis
    proof (cases "resolveUri env u (baseUrl (sharedState st))")
      case None
      then show ?thesis
        using False
        by (simp add: uriInfoCallback_def substitutedUri_def resolvedOrRaw_def uriWarnings_def
            warnAll_def warn_def)
    next
      case (Some r)
      then show ?thesis
        using False
        by (simp add: uriInfoCallback_def substitutedUri_def resolvedOrRaw_def uriWarnings_def
            warnAll_def warn_def)
    qed
  qed
qed

lemma filter_uriWarnings:
  "filter isFailedToResolveWarning (uriWarnings env u st) =
     (case resolveUri env (substitutedUri env u st) (baseUrl (sharedState st)) of
        None \<Rightarrow> [failedToResolveUri (substitutedUri env u st) (baseUrl (sharedState st))]
      | Some r \<Rightarrow> [])"
  by (simp add: uriWarnings_def split: option.splits)




section \<open>The segment list along a parse\<close>









lemma segments_gatherParseOptions [simp]:
  "parsedPlaylist (gatherParseOptions options st) = parsedPlaylist st"
  by (simp add: gatherParseOptions_def)








section \<open>The multivariant flag and the parse options along a parse\<close>

lemma sharedState_custom:
  "sharedState (runCustomTagProcessor h k v a st) =
     snd (h k v a (custom (parsedPlaylist st)) (sharedState st))"
  by (simp add: runCustomTagProcessor_def split: prod.splits)

lemma tagInfoCallback_keepsMultivariant:
  assumes "handlersKeepMultivariant opts"
    and "tagInfoCallback env opts k v a st = Inr st'"
    and "isMultivariantPlaylist (sharedState st)"
  shows "isMultivariantPlaylist (sharedState st')"
  using assms(2)
proof (cases rule: tagInfoCallback_cases)
  case (warned w)
  then show ?thesis using assms(3) by simp
next
  case (emptyTag p)
  then show ?thesis using framed_empty_processors [of k p st] assms(3)
    by (simp add: framed_def keepsMultivariant_def)
next
  case (valueTag p x)
  then show ?thesis using framed_value_processors [of k p st env x] assms(3)
    by (simp add: framed_def keepsMultivariant_def)
next
  case (attributeTag p)
  then show ?thesis using framed_process assms(3)
    by (fastforce simp: framed_def keepsMultivariant_def)
next
  case (customTag h)
  then show ?thesis using assms(1,3)
    by (simp add: sharedState_custom handlersKeepMultivariant_def)
qed

lemma tagInfoCallback_sameBase:
  assumes "handlersKeepBase opts"
    and "tagInfoCallback env opts k v a st = Inr st'"
  shows "sameBase (sharedState st) (sharedState st')"
  using assms(2)
proof (cases rule: tagInfoCallback_cases)
  case (warned w)
  then show ?thesis by (simp add: sameBase_def)
next
  case (emptyTag p)
  then show ?thesis using framed_empty_processors [of k p st]
    by (simp add: framed_def)
next
  case (valueTag p x)
  then show ?thesis using framed_value_processors [of k p st env x]
    by (simp add: framed_def)
next
  case (attributeTag p)
  then show ?thesis using framed_process
    by (fastforce simp: framed_def)
next
  case (customTag h)
  then show ?thesis using assms(1)
    by (simp add: sharedState_custom handlersKeepBase_def sameBase_def)
qed

lemma uriInfoCallback_sameBase:
  "sameBase (sharedState st) (sharedState (uriInfoCallback env u st))"
  by (simp add: uriInfoCallback_closed handleCurrentSegment_result handleCurrentVariant_result
      sameBase_def)

lemma uriInfoCallback_multivariant:
  assumes "isMultivariantPlaylist (sharedState st)"
  shows "isMultivariantPlaylist (sharedState (uriInfoCallback env u st))"
    and "segments (parsedPlaylist (uriInfoCallback env u st)) = segments (parsedPlaylist st)"
    and "length (variantStreams (parsedPlaylist (uriInfoCallback env u st))) =
           Suc (length (variantStreams (parsedPlaylist st)))"
  using assms by (simp_all add: uriInfoCallback_closed handleCurrentVariant_result)

lemma runEvents_multivariant:
  assumes "handlersKeepMultivariant opts"
  shows "runEvents env opts evs st = Inr st' \<Longrightarrow> isMultivariantPlaylist (sharedState st) \<Longrightarrow>
     isMultivariantPlaylist (sharedState st')
     \<and> segments (parsedPlaylist st') = segments (parsedPlaylist st)
     \<and> length (variantStreams (parsedPlaylist st')) =
         length (variantStreams (parsedPlaylist st)) + uriCount evs"
proof (induction evs arbitrary: st)
  case Nil
  then show ?case by simp
next
  case (Cons ev evs)
  from Cons.prems(1) obtain st1 where 1: "runEvent env opts ev st = Inr st1"
    and 2: "runEvents env opts evs st1 = Inr st'"
    by (auto split: sum.splits)
  show ?case
  proof (cases ev)
    case (TagInfo k v a)
    with 1 have t: "tagInfoCallback env opts k v a st = Inr st1" by (simp add: runEvent_def)
    have m: "isMultivariantPlaylist (sharedState st1)"
      using assms t Cons.prems(2) by (rule tagInfoCallback_keepsMultivariant)
    have s: "sameSequences st st1" using t by (rule tagInfoCallback_sameSequences)
    from Cons.IH [OF 2 m] s TagInfo show ?thesis by (simp add: sameSequences_def)
  next
    case (UriInfo u)
    with 1 have e: "st1 = uriInfoCallback env u st" by (simp add: runEvent_def)
    have m: "isMultivariantPlaylist (sharedState st1)"
      unfolding e using Cons.prems(2) by (rule uriInfoCallback_multivariant)
    from Cons.IH [OF 2 m] UriInfo show ?thesis
      by (simp add: e uriInfoCallback_multivariant [OF Cons.prems(2)])
  qed
qed

lemma map_of_streamInf:
  "map_of emptyTagMap EXT_X_STREAM_INF = None"
  "map_of tagValueMap EXT_X_STREAM_INF = None"
  "map_of tagAttributesMap EXT_X_STREAM_INF = Some ExtXStreamInf"
  by (simp_all add: emptyTagMap_def tagValueMap_def tagAttributesMap_def
    EXTM3U_def EXT_X_INDEPENDENT_SEGMENTS_def EXT_X_ENDLIST_def EXT_X_I_FRAMES_ONLY_def
    EXT_X_DISCONTINUITY_def EXT_X_GAP_def EXT_X_VERSION_def EXT_X_TARGETDURATION_def
    EXT_X_MEDIA_SEQUENCE_def EXT_X_DISCONTINUITY_SEQUENCE_def EXT_X_PLAYLIST_TYPE_def
    EXTINF_def EXT_X_BYTERANGE_def EXT_X_BITRATE_def EXT_X_PROGRAM_DATE_TIME_def
    EXT_X_START_def EXT_X_PART_INF_def EXT_X_SERVER_CONTROL_def EXT_X_KEY_def EXT_X_MAP_def
    EXT_X_PART_def EXT_X_MEDIA_def EXT_X_STREAM_INF_def)

lemma streamInf_not_inherited: "EXT_X_STREAM_INF \<notin> set objectPrototypeKeys"
  by (simp add: EXT_X_STREAM_INF_def objectPrototypeKeys_def)

lemma streamInf_sets_flag:
  assumes "EXT_X_STREAM_INF \<notin> ignoreTags opts"
    and "obj_get (transformTagAttributes opts EXT_X_STREAM_INF a) ''BANDWIDTH'' \<noteq> None"
  shows "\<exists>st1. tagInfoCallback env opts EXT_X_STREAM_INF v a st = Inr st1
           \<and> isMultivariantPlaylist (sharedState st1)"
proof -
  let ?a = "transformTagAttributes opts EXT_X_STREAM_INF a"
  have all: "\<forall>r \<in> set (requiredAttributes ExtXStreamInf). obj_get ?a r \<noteq> None"
    using assms(2) by (simp add: ExtXStreamInf_def)
  have "\<exists>st1. process env ExtXStreamInf ?a st = Inr st1
           \<and> isMultivariantPlaylist (sharedState st1)"
    using all
    by (auto simp: process_closed ExtXStreamInf_def ExtXStreamInf_safeProcess_def)
  then show ?thesis
    using assms(1)
    by (simp add: tagInfoCallback_def map_of_streamInf streamInf_not_inherited)
qed

lemma optionsGathered_gather: "optionsGathered options (sharedState (gatherParseOptions options st))"
  by (simp add: optionsGathered_def gatherParseOptions_def sameBase_def)

lemma gather_idem: "optionsGathered options (sharedState st) \<Longrightarrow> gatherParseOptions options st = st"
  by (simp add: optionsGathered_def gatherParseOptions_def sameBase_def)

lemma optionsGathered_sameBase:
  "optionsGathered options sh \<Longrightarrow> sameBase sh sh' \<Longrightarrow> optionsGathered options sh'"
  by (simp add: optionsGathered_def sameBase_def)

lemma runEvents_sameBase:
  assumes "handlersKeepBase opts"
  shows "runEvents env opts evs st = Inr st' \<Longrightarrow> sameBase (sharedState st) (sharedState st')"
proof (induction evs arbitrary: st)
  case Nil
  then show ?case by (simp add: sameBase_def)
next
  case (Cons ev evs)
  from Cons.prems obtain st1 where 1: "runEvent env opts ev st = Inr st1"
    and 2: "runEvents env opts evs st1 = Inr st'"
    by (auto split: sum.splits)
  have "sameBase (sharedState st) (sharedState st1)"
  proof (cases ev)
    case (TagInfo k v a)
    with 1 have "tagInfoCallback env opts k v a st = Inr st1" by (simp add: runEvent_def)
    with assms show ?thesis by (rule tagInfoCallback_sameBase)
  next
    case (UriInfo u)
    with 1 show ?thesis by (auto simp: runEvent_def uriInfoCallback_sameBase)
  qed
  moreover have "sameBase (sharedState st1) (sharedState st')" using 2 by (rule Cons.IH)
  ultimately show ?case by (simp add: sameBase_def)
qed

lemma feedChar_sameBase:
  assumes "handlersKeepBase opts" and "feedChar env opts sm x c = Inr x'"
  shows "sameBase (sharedState (snd x)) (sharedState (snd x'))"
proof -
  obtain s1 evs where t: "transition sm (fst x) c = (s1, evs)"
    by (cases "transition sm (fst x) c")
  with assms(2) obtain st1 where "runEvents env opts evs (snd x) = Inr st1" and "x' = (s1, st1)"
    by (auto simp: feedChar_def split: sum.splits)
  then show ?thesis using runEvents_sameBase [OF assms(1)] by auto
qed

lemma feedString_sameBase:
  assumes "handlersKeepBase opts"
  shows "feedString env opts sm cs x = Inr x' \<Longrightarrow>
         sameBase (sharedState (snd x)) (sharedState (snd x'))"
proof (induction cs arbitrary: x)
  case Nil
  then show ?case by (simp add: sameBase_def)
next
  case (Cons c cs)
  from Cons.prems obtain x1 where 1: "feedChar env opts sm x c = Inr x1"
    and 2: "feedString env opts sm cs x1 = Inr x'"
    by (auto split: sum.splits)
  have "sameBase (sharedState (snd x)) (sharedState (snd x1))"
    using assms 1 by (rule feedChar_sameBase)
  moreover have "sameBase (sharedState (snd x1)) (sharedState (snd x'))" using 2 by (rule Cons.IH)
  ultimately show ?case by (simp add: sameBase_def)
qed

lemma feedString_append:
  "feedString env opts sm (as @ bs) x =
     (case feedString env opts sm as x of
        Inl e \<Rightarrow> Inl e
      | Inr x1 \<Rightarrow> feedString env opts sm bs x1)"
  by (induction as arbitrary: x) (simp_all split: sum.splits)

text \<open>Pushing chunks onto a parser that has a scanner and whose shared state holds the
  parse options is feeding their concatenation.\<close>

lemma pushAll_feedString:
  assumes "handlersKeepBase opts"
  shows "optionsGathered options (sharedState st) \<Longrightarrow>
     pushAll env opts sm options chunks \<lparr> parser = st, stateMachine = Some s \<rparr> =
       (case feedString env opts sm (concat chunks) (s, st) of
          Inl e \<Rightarrow> Inl e
        | Inr x \<Rightarrow> Inr \<lparr> parser = snd x, stateMachine = Some (fst x) \<rparr>)"
proof (induction chunks arbitrary: s st)
  case Nil
  then show ?case by simp
next
  case (Cons c cs)
  have g: "gatherParseOptions options st = st" using Cons.prems by (rule gather_idem)
  show ?case
  proof (cases "feedString env opts sm c (s, st)")
    case (Inl e)
    then show ?thesis by (simp add: pushString_def g feedString_append)
  next
    case (Inr x)
    have "sameBase (sharedState st) (sharedState (snd x))"
      using feedString_sameBase [OF assms Inr] by simp
    with Cons.prems have o: "optionsGathered options (sharedState (snd x))"
      by (rule optionsGathered_sameBase)
    have "pushAll env opts sm options cs \<lparr> parser = snd x, stateMachine = Some (fst x) \<rparr> =
       (case feedString env opts sm (concat cs) (fst x, snd x) of
          Inl e \<Rightarrow> Inl e
        | Inr y \<Rightarrow> Inr \<lparr> parser = snd y, stateMachine = Some (fst y) \<rparr>)"
      using o by (rule Cons.IH)
    then show ?thesis using Inr by (simp add: pushString_def g feedString_append)
  qed
qed


lemma succeedsD: "succeeds r \<Longrightarrow> \<exists>x. r = Inr x"
  by (cases r) (simp_all add: succeeds_def)


section \<open>The claims\<close>

text \<open>
  C1. The claim: a parse never throws; in particular an EXT-X-SKIP tag with
  SKIPPED-SEGMENTS and without RECENTLY-REMOVED-DATERANGES is processed without an
  exception. The code throws there: whenever the tag is not ignored and its attributes,
  after the caller's transform, hold SKIPPED-SEGMENTS and no RECENTLY-REMOVED-DATERANGES,
  \<^verbatim>\<open>tagInfoCallback\<close> ends in the \<^verbatim>\<open>TypeError\<close> of \<^verbatim>\<open>undefined.split\<close>,
  whatever the state and the tag value.
\<close>

theorem ExtXSkip_without_removed_dateranges_throws:
  assumes "EXT_X_SKIP \<notin> ignoreTags opts"
    and "obj_get (transformTagAttributes opts EXT_X_SKIP a) ''SKIPPED-SEGMENTS'' \<noteq> None"
    and "obj_get (transformTagAttributes opts EXT_X_SKIP a) RECENTLY_REMOVED_DATERANGES = None"
  shows "tagInfoCallback env opts EXT_X_SKIP v a st = Inl TypeError"
proof -
  let ?a = "transformTagAttributes opts EXT_X_SKIP a"
  have "process env ExtXSkip ?a st = Inl TypeError"
    using assms(2,3)
    by (auto simp: process_def checkRequiredAttributes_def checkRequiredLoop_closed
        runVariableSubstitution_def substituteLoop_closed ExtXSkip_def
        ExtXSkip_safeProcess_def obj_get_substitutedAttributes RECENTLY_REMOVED_DATERANGES_def warnAll_Nil)
  then show ?thesis
    using assms(1)
    by (simp add: tagInfoCallback_def map_of_empty_skip map_of_value_skip map_of_attr_skip
        skip_not_inherited)
qed


theorem ExtXSkip_without_removed_dateranges_throws_witness:
  "tagInfoCallback exampleEnv defaultParserOptions EXT_X_SKIP None
     [(''SKIPPED-SEGMENTS'', ''3'')] newParser = Inl TypeError
   \<and> returned (parseFullPlaylistString exampleEnv defaultParserOptions lineScanner
        ''#EXT-X-SKIP:SKIPPED-SEGMENTS=3'' exampleParseOptions newParser) = Inl TypeError"
proof -
  have "tagInfoCallback exampleEnv defaultParserOptions EXT_X_SKIP None
     [(''SKIPPED-SEGMENTS'', ''3'')] newParser = Inl TypeError"
    using ExtXSkip_without_removed_dateranges_throws
      [of defaultParserOptions "[(''SKIPPED-SEGMENTS'', ''3'')]" exampleEnv None newParser]
    by (simp add: defaultParserOptions_def RECENTLY_REMOVED_DATERANGES_def)
  moreover have "returned (parseFullPlaylistString exampleEnv defaultParserOptions lineScanner
        ''#EXT-X-SKIP:SKIPPED-SEGMENTS=3'' exampleParseOptions newParser) = Inl TypeError"
    by code_simp
  ultimately show ?thesis by simp
qed

text \<open>
  C6. For every attribute-tag processor and every attribute map: if a required attribute
  is absent, one missing-required-attribute warning is given for each absent one, in the
  order of the set, and that is all that happens (\<^verbatim>\<open>safeProcess\<close> does not run,
  playlist and shared state are unchanged); if all are present, \<^verbatim>\<open>safeProcess\<close> runs,
  on the attributes as they are when \<^verbatim>\<open>hasVariablesForSubstitution\<close> is unset, and
  otherwise on the attributes with every value substituted, after the warnings of the
  substitution.
\<close>

theorem process_contract:
  "((\<exists>r \<in> set (requiredAttributes p). obj_get attrs r = None) \<longrightarrow>
      process env p attrs st =
        Inr (warnAll (map (missingRequiredAttributeWarn (tag_of p))
                        (filter (\<lambda>r. obj_get attrs r = None) (requiredAttributes p))) st))
   \<and> ((\<forall>r \<in> set (requiredAttributes p). obj_get attrs r \<noteq> None) \<longrightarrow>
      process env p attrs st =
        (if hasVariablesForSubstitution (sharedState st)
         then safeProcess p env
                (substitutedAttributes env (playlistDefine (parsedPlaylist st)) attrs)
                (warnAll (substitutionWarnings env (tag_of p)
                            (playlistDefine (parsedPlaylist st)) attrs) st)
         else safeProcess p env attrs st))"
  by (auto simp: process_closed)


theorem process_contract_witness:
  "process exampleEnv ExtXStart [] newParser =
     Inr (warnAll [missingRequiredAttributeWarn EXT_X_START ''TIME-OFFSET''] newParser)
   \<and> process exampleEnv ExtXStart [(''TIME-OFFSET'', ''5'')] newParser =
     ExtXStart_safeProcess exampleEnv [(''TIME-OFFSET'', ''5'')] newParser"
  using process_contract [of ExtXStart "[]" exampleEnv newParser]
    process_contract [of ExtXStart "[(''TIME-OFFSET'', ''5'')]" exampleEnv newParser]
  by (simp add: ExtXStart_def newParser_def createDefaultSharedState_def)

text \<open>
  C5. For every tag the scanner recognizes, the dispatcher takes the first of these that
  applies and nothing after it: the tag is in \<^verbatim>\<open>ignoreTags\<close>, and it only warns; the
  tag is in the empty-tag map (a tag that is one of the property names the map inherits is
  found there too, and the call of its missing \<^verbatim>\<open>process\<close> throws); the tag is in the
  value-tag map, where
  \<^verbatim>\<open>transformTagValue\<close> is applied first, and a null result only gives the
  missing-tag-value warning; the tag is in the attribute-tag map, where
  \<^verbatim>\<open>transformTagAttributes\<close> is applied first; the tag is in the custom tag map, whose
  processor gets the value and the attributes as the scanner gave them; otherwise it only
  gives the unsupported-tag warning. A warning adds one string to the log and leaves
  playlist and shared state as they are.
\<close>

theorem tagInfoCallback_dispatch_order:
  "(tagKey \<in> ignoreTags opts \<longrightarrow>
      tagInfoCallback env opts tagKey tagValue tagAttributes st =
        Inr (warn (ignoreTagWarn tagKey) st))
   \<and> (tagKey \<notin> ignoreTags opts \<longrightarrow>
      (\<forall>p. map_of emptyTagMap tagKey = Some p \<longrightarrow>
         tagInfoCallback env opts tagKey tagValue tagAttributes st = Inr (p st))
      \<and> (map_of emptyTagMap tagKey = None \<and> tagKey \<in> set objectPrototypeKeys \<longrightarrow>
         tagInfoCallback env opts tagKey tagValue tagAttributes st = Inl TypeError)
      \<and> (map_of emptyTagMap tagKey = None \<and> tagKey \<notin> set objectPrototypeKeys \<longrightarrow>
         (\<forall>p. map_of tagValueMap tagKey = Some p \<longrightarrow>
            tagInfoCallback env opts tagKey tagValue tagAttributes st =
              (case transformTagValue opts tagKey tagValue of
                 None \<Rightarrow> Inr (warn (missingTagValueWarn tagKey) st)
               | Some v \<Rightarrow> Inr (p env v st)))
         \<and> (map_of tagValueMap tagKey = None \<longrightarrow>
            (\<forall>p. map_of tagAttributesMap tagKey = Some p \<longrightarrow>
               tagInfoCallback env opts tagKey tagValue tagAttributes st =
                 process env p (transformTagAttributes opts tagKey tagAttributes) st)
            \<and> (map_of tagAttributesMap tagKey = None \<longrightarrow>
               (\<forall>h. customTagMap opts tagKey = Some h \<longrightarrow>
                  tagInfoCallback env opts tagKey tagValue tagAttributes st =
                    Inr (runCustomTagProcessor h tagKey tagValue tagAttributes st))
               \<and> (customTagMap opts tagKey = None \<longrightarrow>
                  tagInfoCallback env opts tagKey tagValue tagAttributes st =
                    Inr (warn (unsupportedTagWarn tagKey) st))))))
   \<and> parsedPlaylist (warn w st) = parsedPlaylist st
   \<and> sharedState (warn w st) = sharedState st
   \<and> warnings (warn w st) = warnings st @ [w]"
  by (simp add: tagInfoCallback_def)

theorem tagInfoCallback_dispatch_order_witness:
  "tagInfoCallback exampleEnv exampleCustomOptions ''EXTM3U'' None [] newParser =
     Inr (warn (ignoreTagWarn ''EXTM3U'') newParser)
   \<and> tagInfoCallback exampleEnv exampleCustomOptions ''EXT-X-ENDLIST'' None [] newParser =
     Inr (ExtXEndList newParser)
   \<and> tagInfoCallback exampleEnv exampleCustomOptions ''EXT-X-VERSION'' None [] newParser =
     Inr (warn (missingTagValueWarn ''EXT-X-VERSION'') newParser)
   \<and> tagInfoCallback exampleEnv exampleCustomOptions ''EXT-X-VERSION'' (Some ''7'') [] newParser =
     Inr (ExtXVersion exampleEnv ''7'' newParser)
   \<and> tagInfoCallback exampleEnv exampleCustomOptions ''EXT-X-START'' None
       [(''TIME-OFFSET'', ''5'')] newParser =
     process exampleEnv ExtXStart [(''TIME-OFFSET'', ''5'')] newParser
   \<and> tagInfoCallback exampleEnv exampleCustomOptions ''EXT-X-CUSTOM'' None [] newParser =
     Inr (runCustomTagProcessor recordingTagProcessor ''EXT-X-CUSTOM'' None [] newParser)
   \<and> tagInfoCallback exampleEnv exampleCustomOptions ''EXT-X-UNKNOWN'' None [] newParser =
     Inr (warn (unsupportedTagWarn ''EXT-X-UNKNOWN'') newParser)
   \<and> tagInfoCallback exampleEnv exampleCustomOptions ''toString'' None [] newParser =
     Inl TypeError"
proof -
  note d = tagInfoCallback_dispatch_order [where opts = exampleCustomOptions
      and env = exampleEnv and st = newParser and w = "[]"]
  note keys = emptyTagMap_def tagValueMap_def tagAttributesMap_def exampleCustomOptions_def
    EXTM3U_def EXT_X_INDEPENDENT_SEGMENTS_def EXT_X_ENDLIST_def EXT_X_I_FRAMES_ONLY_def
    EXT_X_DISCONTINUITY_def EXT_X_GAP_def EXT_X_VERSION_def EXT_X_TARGETDURATION_def
    EXT_X_MEDIA_SEQUENCE_def EXT_X_DISCONTINUITY_SEQUENCE_def EXT_X_PLAYLIST_TYPE_def
    EXTINF_def EXT_X_BYTERANGE_def EXT_X_BITRATE_def EXT_X_PROGRAM_DATE_TIME_def
    EXT_X_START_def EXT_X_PART_INF_def EXT_X_SERVER_CONTROL_def EXT_X_KEY_def EXT_X_MAP_def
    EXT_X_PART_def EXT_X_MEDIA_def EXT_X_STREAM_INF_def EXT_X_SKIP_def
    EXT_X_I_FRAME_STREAM_INF_def EXT_X_DATERANGE_def EXT_X_PRELOAD_HINT_def
    EXT_X_RENDITION_REPORT_def EXT_X_SESSION_DATA_def EXT_X_SESSION_KEY_def
    EXT_X_CONTENT_STEERING_def EXT_X_DEFINE_def objectPrototypeKeys_def
  have 1: "tagInfoCallback exampleEnv exampleCustomOptions ''EXTM3U'' None [] newParser =
     Inr (warn (ignoreTagWarn ''EXTM3U'') newParser)"
    using d [where tagKey = "''EXTM3U''" and tagValue = None and tagAttributes = "[]"]
    by (simp add: keys)
  have 2: "tagInfoCallback exampleEnv exampleCustomOptions ''EXT-X-ENDLIST'' None [] newParser =
     Inr (ExtXEndList newParser)"
    using d [where tagKey = "''EXT-X-ENDLIST''" and tagValue = None and tagAttributes = "[]"]
    by (simp add: keys)
  have 3: "tagInfoCallback exampleEnv exampleCustomOptions ''EXT-X-VERSION'' None [] newParser =
     Inr (warn (missingTagValueWarn ''EXT-X-VERSION'') newParser)"
    using d [where tagKey = "''EXT-X-VERSION''" and tagValue = None and tagAttributes = "[]"]
    by (simp add: keys)
  have 4: "tagInfoCallback exampleEnv exampleCustomOptions ''EXT-X-VERSION'' (Some ''7'') []
       newParser = Inr (ExtXVersion exampleEnv ''7'' newParser)"
    using d [where tagKey = "''EXT-X-VERSION''" and tagValue = "Some ''7''"
        and tagAttributes = "[]"]
    by (simp add: keys)
  have 5: "tagInfoCallback exampleEnv exampleCustomOptions ''EXT-X-START'' None
       [(''TIME-OFFSET'', ''5'')] newParser =
     process exampleEnv ExtXStart [(''TIME-OFFSET'', ''5'')] newParser"
    using d [where tagKey = "''EXT-X-START''" and tagValue = None
        and tagAttributes = "[(''TIME-OFFSET'', ''5'')]"]
    by (simp add: keys)
  have 6: "tagInfoCallback exampleEnv exampleCustomOptions ''EXT-X-CUSTOM'' None [] newParser =
     Inr (runCustomTagProcessor recordingTagProcessor ''EXT-X-CUSTOM'' None [] newParser)"
    using d [where tagKey = "''EXT-X-CUSTOM''" and tagValue = None and tagAttributes = "[]"]
    by (simp add: keys)
  have 7: "tagInfoCallback exampleEnv exampleCustomOptions ''EXT-X-UNKNOWN'' None [] newParser =
     Inr (warn (unsupportedTagWarn ''EXT-X-UNKNOWN'') newParser)"
    using d [where tagKey = "''EXT-X-UNKNOWN''" and tagValue = None and tagAttributes = "[]"]
    by (simp add: keys)
  have 8: "tagInfoCallback exampleEnv exampleCustomOptions ''toString'' None [] newParser =
     Inl TypeError"
    using d [where tagKey = "''toString''" and tagValue = None and tagAttributes = "[]"]
    by (simp add: keys)
  from 1 2 3 4 5 6 7 8 show ?thesis by blast
qed

text \<open>
  C7. For every URI line: when the URI, after substitution, does not resolve against
  \<^verbatim>\<open>sharedState.baseUrl\<close>, exactly one failed-to-resolve warning is among the warnings
  the call gives, the one for this URI and base, and the finalized segment or variant has
  the URI itself as its \<^verbatim>\<open>resolvedUri\<close>; when it resolves there is no such warning and
  \<^verbatim>\<open>resolvedUri\<close> is the resolved value. Either way the \<^verbatim>\<open>uri\<close> field is the URI after
  substitution.
\<close>

theorem uriInfoCallback_resolution:
  "\<exists>emitted.
     warnings (uriInfoCallback env u st) = warnings st @ emitted
     \<and> filter isFailedToResolveWarning emitted =
         (case resolveUri env (substitutedUri env u st) (baseUrl (sharedState st)) of
            None \<Rightarrow> [failedToResolveUri (substitutedUri env u st) (baseUrl (sharedState st))]
          | Some r \<Rightarrow> [])
     \<and> (if isMultivariantPlaylist (sharedState st)
         then \<exists>v. variantStreams (parsedPlaylist (uriInfoCallback env u st)) =
                     variantStreams (parsedPlaylist st) @ [v]
                \<and> variantUri v = substitutedUri env u st
                \<and> variantResolvedUri v =
                    (case resolveUri env (substitutedUri env u st) (baseUrl (sharedState st)) of
                       None \<Rightarrow> substitutedUri env u st
                     | Some r \<Rightarrow> r)
         else \<exists>s. segments (parsedPlaylist (uriInfoCallback env u st)) =
                     segments (parsedPlaylist st) @ [s]
                \<and> uri s = substitutedUri env u st
                \<and> resolvedUri s =
                    (case resolveUri env (substitutedUri env u st) (baseUrl (sharedState st)) of
                       None \<Rightarrow> substitutedUri env u st
                     | Some r \<Rightarrow> r))"
proof (cases "isMultivariantPlaylist (sharedState st)")
  case True
  have "warnings (uriInfoCallback env u st) = warnings st @ uriWarnings env u st"
    using True by (simp add: uriInfoCallback_closed handleCurrentVariant_result)
  moreover have "variantStreams (parsedPlaylist (uriInfoCallback env u st)) =
      variantStreams (parsedPlaylist st) @
        [(currentVariant (sharedState st))\<lparr>variantUri := substitutedUri env u st,
           variantResolvedUri := resolvedOrRaw env u st\<rparr>]"
    using True by (simp add: uriInfoCallback_closed handleCurrentVariant_result)
  ultimately show ?thesis
    using True filter_uriWarnings [of env u st] by (simp add: resolvedOrRaw_def)
next
  case False
  let ?d = "case targetDuration (parsedPlaylist st) of
          Some t \<Rightarrow> if duration (currentSegment (sharedState st)) > t
                    then [segmentDurationExceededTargetDuration env (substitutedUri env u st)
                            (duration (currentSegment (sharedState st))) t]
                    else []
        | None \<Rightarrow> []"
  have w: "warnings (uriInfoCallback env u st) = warnings st @ (uriWarnings env u st @ ?d)"
    using False by (simp add: uriInfoCallback_closed handleCurrentSegment_result
        split: option.splits)
  have f: "filter isFailedToResolveWarning (uriWarnings env u st @ ?d) =
      filter isFailedToResolveWarning (uriWarnings env u st)"
    by (simp split: option.splits)
  have s: "segments (parsedPlaylist (uriInfoCallback env u st)) =
      segments (parsedPlaylist st) @
        [finalizeSegment (sharedState st) (previousSegmentOf (segments (parsedPlaylist st)))
           (substitutedUri env u st) (resolvedOrRaw env u st)]"
    using False by (simp add: uriInfoCallback_closed handleCurrentSegment_result)
  show ?thesis
    using False w f s filter_uriWarnings [of env u st]
    by (simp add: resolvedOrRaw_def del: filter_append) 
qed












text \<open>
  C10. The claim: within a parse \<^verbatim>\<open>isMultivariantPlaylist\<close> starts false, is set by
  the first EXT-X-STREAM-INF that is processed, and is never cleared, so that every URI
  line after it appends a variant stream and the segment list does not grow. A custom tag
  processor is handed the shared state and can clear the flag. As amended: the flag starts
  false; an EXT-X-STREAM-INF tag that is not ignored and has its BANDWIDTH sets it; and,
  provided no custom tag processor clears a set flag, once it is set it stays set to the
  end of the run, every URI line appends one variant stream, and the segment list stays as
  it is.
\<close>

theorem multivariant_flag_monotone:
  assumes "handlersKeepMultivariant opts"
  shows "\<not> isMultivariantPlaylist (sharedState newParser)
    \<and> (EXT_X_STREAM_INF \<notin> ignoreTags opts
         \<and> obj_get (transformTagAttributes opts EXT_X_STREAM_INF a) ''BANDWIDTH'' \<noteq> None \<longrightarrow>
       (\<exists>st1. tagInfoCallback env opts EXT_X_STREAM_INF v a st = Inr st1
              \<and> isMultivariantPlaylist (sharedState st1)))
    \<and> (isMultivariantPlaylist (sharedState st) \<and> runEvents env opts evs st = Inr st' \<longrightarrow>
       isMultivariantPlaylist (sharedState st')
       \<and> segments (parsedPlaylist st') = segments (parsedPlaylist st)
       \<and> length (variantStreams (parsedPlaylist st')) =
           length (variantStreams (parsedPlaylist st)) + uriCount evs)"
proof -
  have 1: "\<not> isMultivariantPlaylist (sharedState newParser)"
    by (simp add: newParser_def createDefaultSharedState_def)
  show ?thesis
    using 1 streamInf_sets_flag [of opts a env v st] runEvents_multivariant [OF assms, of env evs st st']
    by blast
qed

theorem multivariant_flag_monotone_witness:
  "handlersKeepMultivariant defaultParserOptions
   \<and> (\<exists>st1. tagInfoCallback exampleEnv defaultParserOptions EXT_X_STREAM_INF None
               [(''BANDWIDTH'', ''1'')] newParser = Inr st1
           \<and> isMultivariantPlaylist (sharedState st1))
   \<and> (\<exists>st'. runEvents exampleEnv defaultParserOptions
               [UriInfo ''a.m3u8'', TagInfo EXTM3U None [], UriInfo ''b.m3u8'']
               multivariantParser = Inr st'
           \<and> isMultivariantPlaylist (sharedState st')
           \<and> segments (parsedPlaylist st') = []
           \<and> length (variantStreams (parsedPlaylist st')) = 2)"
proof -
  have h: "handlersKeepMultivariant defaultParserOptions"
    by (simp add: handlersKeepMultivariant_def defaultParserOptions_def)
  note m = multivariant_flag_monotone [OF h, where env = exampleEnv]
  have 1: "\<exists>st1. tagInfoCallback exampleEnv defaultParserOptions EXT_X_STREAM_INF None
               [(''BANDWIDTH'', ''1'')] newParser = Inr st1
           \<and> isMultivariantPlaylist (sharedState st1)"
    using m [where a = "[(''BANDWIDTH'', ''1'')]" and v = None and st = newParser]
    by (simp add: defaultParserOptions_def)
  let ?evs = "[UriInfo ''a.m3u8'', TagInfo EXTM3U None [], UriInfo ''b.m3u8'']"
  have "succeeds (runEvents exampleEnv defaultParserOptions ?evs multivariantParser)"
    by code_simp
  then obtain st' where
    r: "runEvents exampleEnv defaultParserOptions ?evs multivariantParser = Inr st'"
    using succeedsD by blast
  have f: "isMultivariantPlaylist (sharedState multivariantParser)"
    by (simp add: multivariantParser_def)
  have 2: "isMultivariantPlaylist (sharedState st')
           \<and> segments (parsedPlaylist st') = []
           \<and> length (variantStreams (parsedPlaylist st')) = 2"
    using m [where st = multivariantParser and evs = ?evs and st' = st'] r f
    by (simp add: multivariantParser_def newParser_def createDefaultParsedPlaylist_def)
  from h 1 r 2 show ?thesis by blast
qed

theorem custom_tag_clears_multivariant_flag:
  "multivariantAfter (runEvents exampleEnv clearingOptions
      [TagInfo EXT_X_STREAM_INF None [(''BANDWIDTH'', ''1'')]] newParser) = Inr True
   \<and> multivariantAfter (runEvents exampleEnv clearingOptions
      [TagInfo EXT_X_STREAM_INF None [(''BANDWIDTH'', ''1'')],
       TagInfo ''EXT-X-CLEAR'' None []] newParser) = Inr False
   \<and> sequenceLengths (runEvents exampleEnv clearingOptions
      [TagInfo EXT_X_STREAM_INF None [(''BANDWIDTH'', ''1'')],
       TagInfo ''EXT-X-CLEAR'' None [],
       UriInfo ''a.ts''] newParser) = Inr (1, 0)"
  by code_simp


text \<open>
  C2. The claim: for every input and every partition of it into chunks, pushing the
  chunks with the same parse options and calling \<^verbatim>\<open>done()\<close> returns the playlist the
  full parse of the input returns. Every push calls \<^verbatim>\<open>gatherParseOptions\<close> again, so
  a custom tag processor that writes \<^verbatim>\<open>baseTime\<close>, \<^verbatim>\<open>baseUrl\<close> or
  \<^verbatim>\<open>baseDefine\<close> of the shared state has its write undone at the next chunk boundary
  and kept in a full parse. As amended: provided no custom tag processor changes these
  three fields, a progressive parse of one chunk or more on a new parser returns what the
  full parse of their concatenation returns, the playlist or the exception, for every
  scanner and wherever the chunk boundaries fall.
\<close>

theorem chunking_equivalence:
  assumes "handlersKeepBase opts"
  shows "returned (progressiveParse env opts sm (chunk # chunks) options newProgressiveParser) =
         returned (parseFullPlaylistString env opts sm (concat (chunk # chunks)) options newParser)"
proof -
  let ?st1 = "gatherParseOptions options newParser"
  have o1: "optionsGathered options (sharedState ?st1)" by (rule optionsGathered_gather)
  show ?thesis
  proof (cases "feedString env opts sm chunk (initialState sm, ?st1)")
    case (Inl e)
    then show ?thesis
      by (simp add: progressiveParse_def pushString_def newProgressiveParser_def
          parseFullPlaylistString_def feedString_append returned_def)
  next
    case (Inr x)
    have "sameBase (sharedState ?st1) (sharedState (snd x))"
      using feedString_sameBase [OF assms Inr] by simp
    with o1 have o: "optionsGathered options (sharedState (snd x))"
      by (rule optionsGathered_sameBase)
    have p: "pushAll env opts sm options chunks \<lparr> parser = snd x, stateMachine = Some (fst x) \<rparr> =
       (case feedString env opts sm (concat chunks) (fst x, snd x) of
          Inl e \<Rightarrow> Inl e
        | Inr y \<Rightarrow> Inr \<lparr> parser = snd y, stateMachine = Some (fst y) \<rparr>)"
      using o by (rule pushAll_feedString [OF assms])
    show ?thesis
    proof (cases "feedString env opts sm (concat chunks) x")
      case (Inl e)
      then show ?thesis using Inr p
        by (simp add: progressiveParse_def pushString_def newProgressiveParser_def
            parseFullPlaylistString_def feedString_append returned_def)
    next
      case (Inr y)
      then show ?thesis using \<open>feedString env opts sm chunk (initialState sm, ?st1) = Inr x\<close> p
        by (simp add: progressiveParse_def pushString_def newProgressiveParser_def
            parseFullPlaylistString_def feedString_append returned_def progressiveDone_def
            clean_def split: sum.splits)
    qed
  qed
qed


theorem chunking_equivalence_witness:
  "handlersKeepBase defaultParserOptions
   \<and> returned (progressiveParse exampleEnv defaultParserOptions lineScanner
        (''#EXTM3U'' # [[newline], ''a.'', ''ts'']) exampleParseOptions newProgressiveParser) =
     returned (parseFullPlaylistString exampleEnv defaultParserOptions lineScanner
        (concat (''#EXTM3U'' # [[newline], ''a.'', ''ts''])) exampleParseOptions newParser)"
proof -
  have h: "handlersKeepBase defaultParserOptions"
    by (simp add: handlersKeepBase_def defaultParserOptions_def)
  from h chunking_equivalence [OF h] show ?thesis by blast
qed

theorem chunk_boundary_after_custom_tag:
  "startTimes (returned (progressiveParse exampleEnv shiftingOptions lineScanner
      shiftChunks exampleParseOptions newProgressiveParser)) = Inr [0]
   \<and> startTimes (returned (parseFullPlaylistString exampleEnv shiftingOptions lineScanner
      (concat shiftChunks) exampleParseOptions newParser)) = Inr [100]"
  by code_simp


text \<open>
  C9. When \<^verbatim>\<open>parseFullPlaylistString\<close>, \<^verbatim>\<open>parseFullPlaylistBuffer\<close> or
  \<^verbatim>\<open>done()\<close> returns, the parser's playlist and shared state are those of a new
  parser (after \<^verbatim>\<open>done()\<close> the progressive parser has no state machine either), and
  the playlist returned is the one the parser held after the synthetic newline, before the
  reset.
\<close>

theorem clean_after_parse:
  "(parseFullPlaylistString env opts sm input options st = Inr (playlist, st') \<longrightarrow>
      parsedPlaylist st' = parsedPlaylist newParser \<and> sharedState st' = sharedState newParser
      \<and> (\<exists>x x1. feedString env opts sm input (initialState sm, gatherParseOptions options st)
                   = Inr x
              \<and> transitionToNewLine env opts sm x = Inr x1
              \<and> playlist = parsedPlaylist (snd x1)))
   \<and> (parseFullPlaylistBuffer env opts sm bytes options st = Inr (playlist, st') \<longrightarrow>
      parsedPlaylist st' = parsedPlaylist newParser \<and> sharedState st' = sharedState newParser
      \<and> (\<exists>x x1. feedString env opts sm (map char_of bytes)
                   (initialState sm, gatherParseOptions options st) = Inr x
              \<and> transitionToNewLine env opts sm x = Inr x1
              \<and> playlist = parsedPlaylist (snd x1)))
   \<and> (progressiveDone env opts sm pp = Inr (playlist, pp') \<longrightarrow>
      parsedPlaylist (parser pp') = parsedPlaylist newParser
      \<and> sharedState (parser pp') = sharedState newParser
      \<and> stateMachine pp' = None
      \<and> (case stateMachine pp of
            None \<Rightarrow> playlist = parsedPlaylist (parser pp)
          | Some s \<Rightarrow>
              (\<exists>x. transitionToNewLine env opts sm (s, parser pp) = Inr x
                  \<and> playlist = parsedPlaylist (snd x))))"
proof (intro conjI impI)
  assume a: "parseFullPlaylistString env opts sm input options st = Inr (playlist, st')"
  then obtain x x1 where
    1: "feedString env opts sm input (initialState sm, gatherParseOptions options st) = Inr x"
    and 2: "transitionToNewLine env opts sm x = Inr x1"
    and 3: "(playlist, st') = clean (snd x1)"
    by (auto simp: parseFullPlaylistString_def Let_def split: sum.splits)
  from 3 show "parsedPlaylist st' = parsedPlaylist newParser"
    and "sharedState st' = sharedState newParser"
    by (simp_all add: clean_def newParser_def)
  from 1 2 3 show "\<exists>x x1. feedString env opts sm input
        (initialState sm, gatherParseOptions options st) = Inr x
      \<and> transitionToNewLine env opts sm x = Inr x1 \<and> playlist = parsedPlaylist (snd x1)"
    by (intro exI [of _ x] exI [of _ x1]) (simp add: clean_def)
next
  assume a: "parseFullPlaylistBuffer env opts sm bytes options st = Inr (playlist, st')"
  then obtain x x1 where
    1: "feedString env opts sm (map char_of bytes)
          (initialState sm, gatherParseOptions options st) = Inr x"
    and 2: "transitionToNewLine env opts sm x = Inr x1"
    and 3: "(playlist, st') = clean (snd x1)"
    by (auto simp: parseFullPlaylistBuffer_def Let_def split: sum.splits)
  from 3 show "parsedPlaylist st' = parsedPlaylist newParser"
    and "sharedState st' = sharedState newParser"
    by (simp_all add: clean_def newParser_def)
  from 1 2 3 show "\<exists>x x1. feedString env opts sm (map char_of bytes)
        (initialState sm, gatherParseOptions options st) = Inr x
      \<and> transitionToNewLine env opts sm x = Inr x1 \<and> playlist = parsedPlaylist (snd x1)"
    by (intro exI [of _ x] exI [of _ x1]) (simp add: clean_def)
next
  assume a: "progressiveDone env opts sm pp = Inr (playlist, pp')"
  then obtain st1 where
    1: "(case stateMachine pp of
              Some s \<Rightarrow> (case transitionToNewLine env opts sm (s, parser pp) of
                           Inl e \<Rightarrow> Inl e
                         | Inr x \<Rightarrow> Inr (snd x))
            | None \<Rightarrow> Inr (parser pp)) = Inr st1"
    and 2: "playlist = parsedPlaylist st1"
    and 3: "pp' = \<lparr> parser = snd (clean st1), stateMachine = None \<rparr>"
    by (auto simp: progressiveDone_def clean_def split: sum.splits)
  from 3 show "parsedPlaylist (parser pp') = parsedPlaylist newParser"
    and "sharedState (parser pp') = sharedState newParser"
    and "stateMachine pp' = None"
    by (simp_all add: clean_def newParser_def)
  from 1 2 show "case stateMachine pp of
            None \<Rightarrow> playlist = parsedPlaylist (parser pp)
          | Some s \<Rightarrow>
              (\<exists>x. transitionToNewLine env opts sm (s, parser pp) = Inr x
                  \<and> playlist = parsedPlaylist (snd x))"
    by (auto split: option.splits sum.splits)
qed

theorem clean_after_parse_witness:
  "(\<exists>playlist st'.
      parseFullPlaylistString exampleEnv defaultParserOptions lineScanner examplePlaylistText
        exampleParseOptions newParser = Inr (playlist, st')
      \<and> parsedPlaylist st' = parsedPlaylist newParser
      \<and> sharedState st' = sharedState newParser)
   \<and> (\<exists>playlist st'.
      parseFullPlaylistBuffer exampleEnv defaultParserOptions lineScanner [97, 46, 116, 115]
        exampleParseOptions newParser = Inr (playlist, st')
      \<and> parsedPlaylist st' = parsedPlaylist newParser
      \<and> sharedState st' = sharedState newParser)
   \<and> (\<exists>playlist pp'.
      progressiveDone exampleEnv defaultParserOptions lineScanner
        \<lparr> parser = newParser, stateMachine = Some ''a.ts'' \<rparr> = Inr (playlist, pp')
      \<and> parsedPlaylist (parser pp') = parsedPlaylist newParser
      \<and> sharedState (parser pp') = sharedState newParser
      \<and> stateMachine pp' = None)"
proof -
  note c = clean_after_parse [where env = exampleEnv and opts = defaultParserOptions
      and sm = lineScanner and options = exampleParseOptions and st = newParser
      and input = examplePlaylistText and bytes = "[97, 46, 116, 115]"
      and pp = "\<lparr> parser = newParser, stateMachine = Some ''a.ts'' \<rparr>"]
  have "succeeds (parseFullPlaylistString exampleEnv defaultParserOptions lineScanner
      examplePlaylistText exampleParseOptions newParser)"
    by code_simp
  then obtain x1 where "parseFullPlaylistString exampleEnv defaultParserOptions lineScanner
      examplePlaylistText exampleParseOptions newParser = Inr x1"
    using succeedsD by blast
  then have 1: "parseFullPlaylistString exampleEnv defaultParserOptions lineScanner
      examplePlaylistText exampleParseOptions newParser = Inr (fst x1, snd x1)"
    by simp
  have "succeeds (parseFullPlaylistBuffer exampleEnv defaultParserOptions lineScanner
      [97, 46, 116, 115] exampleParseOptions newParser)"
    by code_simp
  then obtain x2 where "parseFullPlaylistBuffer exampleEnv defaultParserOptions lineScanner
      [97, 46, 116, 115] exampleParseOptions newParser = Inr x2"
    using succeedsD by blast
  then have 2: "parseFullPlaylistBuffer exampleEnv defaultParserOptions lineScanner
      [97, 46, 116, 115] exampleParseOptions newParser = Inr (fst x2, snd x2)"
    by simp
  have "succeeds (progressiveDone exampleEnv defaultParserOptions lineScanner
        \<lparr> parser = newParser, stateMachine = Some ''a.ts'' \<rparr>)"
    by code_simp
  then obtain x3 where "progressiveDone exampleEnv defaultParserOptions lineScanner
        \<lparr> parser = newParser, stateMachine = Some ''a.ts'' \<rparr> = Inr x3"
    using succeedsD by blast
  then have 3: "progressiveDone exampleEnv defaultParserOptions lineScanner
        \<lparr> parser = newParser, stateMachine = Some ''a.ts'' \<rparr> = Inr (fst x3, snd x3)"
    by simp
  from c [where playlist = "fst x1" and st' = "snd x1"] 1
  have a: "\<exists>playlist st'.
      parseFullPlaylistString exampleEnv defaultParserOptions lineScanner examplePlaylistText
        exampleParseOptions newParser = Inr (playlist, st')
      \<and> parsedPlaylist st' = parsedPlaylist newParser
      \<and> sharedState st' = sharedState newParser"
    by blast
  from c [where playlist = "fst x2" and st' = "snd x2"] 2
  have b: "\<exists>playlist st'.
      parseFullPlaylistBuffer exampleEnv defaultParserOptions lineScanner [97, 46, 116, 115]
        exampleParseOptions newParser = Inr (playlist, st')
      \<and> parsedPlaylist st' = parsedPlaylist newParser
      \<and> sharedState st' = sharedState newParser"
    by blast
  from c [where playlist = "fst x3" and pp' = "snd x3"] 3
  have d: "\<exists>playlist pp'.
      progressiveDone exampleEnv defaultParserOptions lineScanner
        \<lparr> parser = newParser, stateMachine = Some ''a.ts'' \<rparr> = Inr (playlist, pp')
      \<and> parsedPlaylist (parser pp') = parsedPlaylist newParser
      \<and> sharedState (parser pp') = sharedState newParser
      \<and> stateMachine pp' = None"
    by blast
  from a b d show ?thesis by blast
qed

end
